theory Spec2Isabelle
  imports Complex_Main "HOL-Library.AList"
begin

section \<open>JavaScript values\<close>

text \<open>
  The routes of \<^verbatim>\<open>server/routes.ts\<close> read request bodies and provider responses that
  TypeScript types as \<^verbatim>\<open>any\<close>: nothing is validated, so the model keeps them as
  dynamically typed values. Strings are lists of 8-bit code units. A number is its
  mathematical value (both zeros are the one value \<open>Finite 0\<close>, which is how
  \<^verbatim>\<open>===\<close> and truthiness see them). An object is the list of its own properties,
  read with \<open>map_of\<close>.
\<close>

datatype jsnum = Finite rat | PosInfinity | NegInfinity | NaN

datatype jsval =
    JUndefined
  | JNull
  | JBool bool
  | JNum jsnum
  | JStr string
  | JArr "jsval list"
  | JObj "(string \<times> jsval) list"

text \<open>What \<^verbatim>\<open>if (v)\<close>, \<^verbatim>\<open>!v\<close>, \<^verbatim>\<open>a || b\<close> and \<^verbatim>\<open>a && b\<close> test.\<close>

fun truthy :: "jsval \<Rightarrow> bool" where
  "truthy JUndefined = False"
| "truthy JNull = False"
| "truthy (JBool b) = b"
| "truthy (JNum n) = (n \<noteq> Finite 0 \<and> n \<noteq> NaN)"
| "truthy (JStr s) = (s \<noteq> [])"
| "truthy (JArr xs) = True"
| "truthy (JObj kvs) = True"

definition nullish :: "jsval \<Rightarrow> bool" where
  "nullish v = (v = JUndefined \<or> v = JNull)"

text \<open>\<^verbatim>\<open>a || b\<close> and \<^verbatim>\<open>a ?? b\<close>.\<close>

definition js_or :: "jsval \<Rightarrow> jsval \<Rightarrow> jsval" where
  "js_or a b = (if truthy a then a else b)"

definition js_coalesce :: "jsval \<Rightarrow> jsval \<Rightarrow> jsval" where
  "js_coalesce a b = (if nullish a then b else a)"

text \<open>
  \<^verbatim>\<open>a === b\<close>. Arrays and objects are compared by reference; the two operands of every
  comparison in the routes come from different sources (a stored record and a freshly
  parsed body, or a parsed body and a literal), so they are never the same reference.
\<close>

fun strict_eq :: "jsval \<Rightarrow> jsval \<Rightarrow> bool" where
  "strict_eq JUndefined JUndefined = True"
| "strict_eq JNull JNull = True"
| "strict_eq (JBool a) (JBool b) = (a = b)"
| "strict_eq (JNum a) (JNum b) = (a = b \<and> a \<noteq> NaN)"
| "strict_eq (JStr a) (JStr b) = (a = b)"
| "strict_eq a b = False"

text \<open>
  A thrown value: an \<^verbatim>\<open>Error\<close> instance (of any subclass) with its message, or something
  that is not an \<^verbatim>\<open>Error\<close>.
\<close>

datatype exn = JsError string | NotAnError

definition cannot_read :: "jsval \<Rightarrow> string \<Rightarrow> exn" where
  "cannot_read v n =
     JsError (''Cannot read properties of '' @ (if v = JNull then ''null'' else ''undefined'')
              @ '' (reading '' @ [CHR 0x27] @ n @ [CHR 0x27] @ '')'')"

text \<open>
  Reading a property of a value that is neither \<^verbatim>\<open>null\<close> nor \<^verbatim>\<open>undefined\<close>. Only
  the names the routes read are meant (\<^verbatim>\<open>data\<close>, \<^verbatim>\<open>task_id\<close>, \<^verbatim>\<open>callbackType\<close>,
  \<^verbatim>\<open>audio_url\<close>, \<^verbatim>\<open>taskId\<close> and the song fields), none of which is a built-in
  property of arrays, strings, numbers or booleans.
\<close>

fun own :: "jsval \<Rightarrow> string \<Rightarrow> jsval" where
  "own (JObj kvs) n = (case map_of kvs n of None \<Rightarrow> JUndefined | Some v \<Rightarrow> v)"
| "own v n = JUndefined"

text \<open>\<^verbatim>\<open>v.n\<close> raises a TypeError on \<^verbatim>\<open>null\<close> and \<^verbatim>\<open>undefined\<close>; \<^verbatim>\<open>v?.n\<close> does not.\<close>

definition get_prop :: "jsval \<Rightarrow> string \<Rightarrow> exn + jsval" where
  "get_prop v n = (if nullish v then Inl (cannot_read v n) else Inr (own v n))"

definition opt_prop :: "jsval \<Rightarrow> string \<Rightarrow> jsval" where
  "opt_prop v n = (if nullish v then JUndefined else own v n)"

text \<open>\<^verbatim>\<open>v[0]\<close> on a value that is neither \<^verbatim>\<open>null\<close> nor \<^verbatim>\<open>undefined\<close>.\<close>

fun own0 :: "jsval \<Rightarrow> jsval" where
  "own0 (JArr xs) = (case xs of [] \<Rightarrow> JUndefined | x # _ \<Rightarrow> x)"
| "own0 (JStr s) = (case s of [] \<Rightarrow> JUndefined | c # _ \<Rightarrow> JStr [c])"
| "own0 (JObj kvs) = (case map_of kvs ''0'' of None \<Rightarrow> JUndefined | Some v \<Rightarrow> v)"
| "own0 v = JUndefined"

definition index0 :: "jsval \<Rightarrow> exn + jsval" where
  "index0 v = (if nullish v then Inl (cannot_read v ''0'') else Inr (own0 v))"

fun isArray :: "jsval \<Rightarrow> bool" where
  "isArray (JArr xs) = True"
| "isArray v = False"

text \<open>
  A template literal \<^verbatim>\<open>`${v}`\<close> converts \<open>v\<close> to a string. For the values that
  \<^verbatim>\<open>JSON.parse\<close> builds this raises a TypeError in one case only: an object with an
  own property \<^verbatim>\<open>toString\<close> (which is not a function, and neither is what
  \<^verbatim>\<open>valueOf\<close> then returns a primitive), directly or as an element of an array, whose
  \<^verbatim>\<open>toString\<close> joins the strings of its elements. Every other object prints as
  \<^verbatim>\<open>[object Object]\<close>. Only the failure matters here: the string goes to the console.
\<close>

fun printable :: "jsval \<Rightarrow> bool" where
  "printable (JObj kvs) = (map_of kvs ''toString'' = None)"
| "printable (JArr xs) = list_all printable xs"
| "printable v = True"

definition template_literal :: "jsval \<Rightarrow> exn + unit" where
  "template_literal v =
     (if printable v then Inr () else Inl (JsError ''Cannot convert object to primitive value''))"

section \<open>The song store (\<^verbatim>\<open>shared/schema.ts\<close>, \<^verbatim>\<open>MemStorage\<close> of \<^verbatim>\<open>server/storage.ts\<close>)\<close>

text \<open>
  A \<^verbatim>\<open>Song\<close>. The id comes from \<^verbatim>\<open>randomUUID()\<close> and \<open>createdAt\<close> from
  \<^verbatim>\<open>new Date()\<close> (milliseconds since the epoch); every other field holds whatever value
  the routes put there. The field \<^verbatim>\<open>id\<close> is called \<open>song_id\<close> here.
\<close>

record song =
  song_id :: string
  title :: jsval
  topic :: jsval
  lyrics :: jsval
  rhythmPattern :: jsval
  culturalNotes :: jsval
  musicalStyle :: jsval
  sourceDocumentId :: jsval
  sourceText :: jsval
  audioUrl :: jsval
  sunoJobId :: jsval
  createdAt :: int

text \<open>An \<^verbatim>\<open>InsertSong\<close> argument; a key the caller leaves out reads as \<^verbatim>\<open>undefined\<close>.\<close>

record insert_song =
  ins_title :: jsval
  ins_topic :: jsval
  ins_lyrics :: jsval
  ins_rhythmPattern :: jsval
  ins_culturalNotes :: jsval
  ins_musicalStyle :: jsval
  ins_sourceDocumentId :: jsval
  ins_sourceText :: jsval
  ins_audioUrl :: jsval
  ins_sunoJobId :: jsval

text \<open>A \<^verbatim>\<open>Partial<Song>\<close>: \<open>None\<close> where the object has no such key.\<close>

record partial_song =
  upd_id :: "string option"
  upd_title :: "jsval option"
  upd_topic :: "jsval option"
  upd_lyrics :: "jsval option"
  upd_rhythmPattern :: "jsval option"
  upd_culturalNotes :: "jsval option"
  upd_musicalStyle :: "jsval option"
  upd_sourceDocumentId :: "jsval option"
  upd_sourceText :: "jsval option"
  upd_audioUrl :: "jsval option"
  upd_sunoJobId :: "jsval option"
  upd_createdAt :: "int option"

definition no_updates :: partial_song where
  "no_updates =
     \<lparr>upd_id = None, upd_title = None, upd_topic = None, upd_lyrics = None,
      upd_rhythmPattern = None, upd_culturalNotes = None, upd_musicalStyle = None,
      upd_sourceDocumentId = None, upd_sourceText = None, upd_audioUrl = None,
      upd_sunoJobId = None, upd_createdAt = None\<rparr>"

text \<open>The object literal \<^verbatim>\<open>{ audioUrl }\<close> that both resolution paths pass.\<close>

definition only_audioUrl :: "jsval \<Rightarrow> partial_song" where
  "only_audioUrl v = no_updates\<lparr>upd_audioUrl := Some v\<rparr>"

definition pick :: "'a \<Rightarrow> 'a option \<Rightarrow> 'a" where
  "pick old new = (case new of None \<Rightarrow> old | Some v \<Rightarrow> v)"

text \<open>\<^verbatim>\<open>{ ...existing, ...updates }\<close>\<close>

definition spread :: "song \<Rightarrow> partial_song \<Rightarrow> song" where
  "spread existing updates =
     \<lparr>song_id = pick (song_id existing) (upd_id updates),
      title = pick (title existing) (upd_title updates),
      topic = pick (topic existing) (upd_topic updates),
      lyrics = pick (lyrics existing) (upd_lyrics updates),
      rhythmPattern = pick (rhythmPattern existing) (upd_rhythmPattern updates),
      culturalNotes = pick (culturalNotes existing) (upd_culturalNotes updates),
      musicalStyle = pick (musicalStyle existing) (upd_musicalStyle updates),
      sourceDocumentId = pick (sourceDocumentId existing) (upd_sourceDocumentId updates),
      sourceText = pick (sourceText existing) (upd_sourceText updates),
      audioUrl = pick (audioUrl existing) (upd_audioUrl updates),
      sunoJobId = pick (sunoJobId existing) (upd_sunoJobId updates),
      createdAt = pick (createdAt existing) (upd_createdAt updates)\<rparr>"

text \<open>
  The routes talk to one of two implementations of \<^verbatim>\<open>IStorage\<close>; the one modelled
  is the in-memory \<^verbatim>\<open>MemStorage\<close> (\<^verbatim>\<open>PostgresStorage\<close> of \<^verbatim>\<open>server/db.ts\<close> issues the
  corresponding SQL statements).
  \<^verbatim>\<open>MemStorage.songs\<close> is a \<^verbatim>\<open>Map<string, Song>\<close>, which iterates in insertion order:
  \<^verbatim>\<open>set\<close> replaces the value of a present key where it stands and appends a new key
  (\<open>AList.update\<close>), \<^verbatim>\<open>get\<close> is \<open>map_of\<close>, \<^verbatim>\<open>delete\<close> is \<open>AList.delete\<close> and
  says whether the key was there.
\<close>

type_synonym store = "(string \<times> song) list"

text \<open>
  \<^verbatim>\<open>getSongs\<close> sorts the values by \<open>createdAt\<close>, newest first; the sort of
  \<^verbatim>\<open>Array.prototype.sort\<close> is stable, as \<open>sort_key\<close> is.
\<close>

definition getSongs :: "store \<Rightarrow> song list" where
  "getSongs st = sort_key (\<lambda>s. - createdAt s) (map snd st)"

definition getSong :: "store \<Rightarrow> string \<Rightarrow> song option" where
  "getSong st k = map_of st k"

text \<open>\<^verbatim>\<open>createSong\<close>, with the results of \<^verbatim>\<open>randomUUID()\<close> and \<^verbatim>\<open>new Date()\<close> as arguments.\<close>

definition createSong :: "store \<Rightarrow> insert_song \<Rightarrow> string \<Rightarrow> int \<Rightarrow> store \<times> song" where
  "createSong st insertSong uuid now =
     (let s = \<lparr>song_id = uuid,
                title = ins_title insertSong,
                topic = ins_topic insertSong,
                lyrics = ins_lyrics insertSong,
                rhythmPattern = js_coalesce (ins_rhythmPattern insertSong) JNull,
                culturalNotes = js_coalesce (ins_culturalNotes insertSong) JNull,
                musicalStyle = js_coalesce (ins_musicalStyle insertSong) JNull,
                sourceDocumentId = js_coalesce (ins_sourceDocumentId insertSong) JNull,
                sourceText = js_coalesce (ins_sourceText insertSong) JNull,
                audioUrl = js_coalesce (ins_audioUrl insertSong) JNull,
                sunoJobId = js_coalesce (ins_sunoJobId insertSong) JNull,
                createdAt = now\<rparr>
      in (AList.update uuid s st, s))"

definition updateSong :: "store \<Rightarrow> string \<Rightarrow> partial_song \<Rightarrow> store \<times> song option" where
  "updateSong st k updates =
     (case map_of st k of
        None \<Rightarrow> (st, None)
      | Some existing \<Rightarrow>
          (let updated = spread existing updates
           in (AList.update k updated st, Some updated)))"

definition deleteSong :: "store \<Rightarrow> string \<Rightarrow> store \<times> bool" where
  "deleteSong st k = (AList.delete k st, k \<in> set (map fst st))"

section \<open>HTTP replies\<close>

datatype reply_body = Json jsval | SongJson song | NoBody

datatype reply = Reply (status: nat) (body: reply_body)

definition message :: "string \<Rightarrow> reply_body" where
  "message m = Json (JObj [(''message'', JStr m)])"

definition running :: reply where
  "running = Reply 200 (Json (JObj [(''status'', JStr ''running'')]))"

definition success :: "jsval \<Rightarrow> reply" where
  "success url = Reply 200 (Json (JObj [(''status'', JStr ''success''), (''audioUrl'', url)]))"

definition received :: reply where
  "received = Reply 200 (Json (JObj [(''received'', JBool True)]))"

text \<open>A success response is one with a 2xx status.\<close>

definition is_success :: "reply \<Rightarrow> bool" where
  "is_success r = (200 \<le> status r \<and> status r < 300)"

section \<open>Resolution path A: \<^verbatim>\<open>POST /api/suno/callback\<close>\<close>

text \<open>
  \<^verbatim>\<open>const { data } = req.body\<close> raises on a body that is \<^verbatim>\<open>null\<close> or
  \<^verbatim>\<open>undefined\<close> (no body parser ran).
\<close>

definition destructure_data :: "jsval \<Rightarrow> exn + jsval" where
  "destructure_data b =
     (if nullish b
      then Inl (JsError (''Cannot destructure property '' @ [CHR 0x27] @ ''data'' @ [CHR 0x27]
                         @ '' of '' @ [CHR 0x27] @ ''req.body'' @ [CHR 0x27] @ '' as it is ''
                         @ (if b = JNull then ''null'' else ''undefined'') @ ''.''))
      else Inr (own b ''data''))"

text \<open>
  The body of the handler's \<^verbatim>\<open>try\<close> block, with the store it leaves behind:
  \<open>Inl\<close> is an exception that reaches the \<^verbatim>\<open>catch\<close>. The two log lines are template
  literals, \<^verbatim>\<open>console.warn(`... ${taskId}`)\<close> before the 404 and
  \<^verbatim>\<open>console.log(`Song ${song.id} ... ${audioUrl}`)\<close> after \<^verbatim>\<open>updateSong\<close>, and
  raise when the value cannot be converted to a string; the second one raises after the
  store has been written.
\<close>

definition callback_try :: "store \<Rightarrow> jsval \<Rightarrow> store \<times> (exn + reply)" where
  "callback_try st req_body =
     (case destructure_data req_body of Inl e \<Rightarrow> (st, Inl e) | Inr data \<Rightarrow>
      case get_prop data ''task_id'' of Inl e \<Rightarrow> (st, Inl e) | Inr taskId \<Rightarrow>
      case find (\<lambda>s. strict_eq (sunoJobId s) taskId) (getSongs st) of
        None \<Rightarrow>
         (case template_literal taskId of Inl e \<Rightarrow> (st, Inl e) | Inr logged \<Rightarrow>
          (st, Inr (Reply 404 (message ''Song not found''))))
      | Some sng \<Rightarrow>
         (case get_prop data ''callbackType'' of Inl e \<Rightarrow> (st, Inl e) | Inr ct \<Rightarrow>
          if \<not> strict_eq ct (JStr ''complete'') then (st, Inr received) else
          case get_prop data ''data'' of Inl e \<Rightarrow> (st, Inl e) | Inr dd \<Rightarrow>
          if \<not> truthy dd then (st, Inr received) else
          case index0 dd of Inl e \<Rightarrow> (st, Inl e) | Inr first \<Rightarrow>
          if \<not> truthy (opt_prop first ''audio_url'') then (st, Inr received) else
          case get_prop first ''audio_url'' of Inl e \<Rightarrow> (st, Inl e) | Inr url \<Rightarrow>
          (let st' = fst (updateSong st (song_id sng) (only_audioUrl url))
           in case template_literal url of Inl e \<Rightarrow> (st', Inl e) | Inr logged \<Rightarrow>
              (st', Inr received))))"

definition suno_callback :: "store \<Rightarrow> jsval \<Rightarrow> store \<times> reply" where
  "suno_callback st req_body =
     (case callback_try st req_body of
        (st', Inl e) \<Rightarrow> (st', Reply 500 (message ''Failed to process callback''))
      | (st', Inr r) \<Rightarrow> (st', r))"

section \<open>Resolution path B: \<^verbatim>\<open>GET /api/songs/:id/audio\<close>\<close>

text \<open>\<^verbatim>\<open>song?.field\<close> on the result of \<^verbatim>\<open>getSong\<close>.\<close>

definition opt_field :: "song option \<Rightarrow> (song \<Rightarrow> jsval) \<Rightarrow> jsval" where
  "opt_field s f = (case s of None \<Rightarrow> JUndefined | Some x \<Rightarrow> f x)"

text \<open>
  The normalisation of the provider's answer: \<open>taskData\<close> is
  \<^verbatim>\<open>sunoData.data || sunoData\<close>, \<open>songArray\<close> is \<^verbatim>\<open>taskData.data\<close>, and the result is
  the \<^verbatim>\<open>audio_url\<close> variable (\<^verbatim>\<open>null\<close> when no branch assigns it).
\<close>

definition unwrap_task :: "jsval \<Rightarrow> exn + jsval" where
  "unwrap_task sunoData =
     (case get_prop sunoData ''data'' of Inl e \<Rightarrow> Inl e | Inr d \<Rightarrow> Inr (js_or d sunoData))"

definition normalize_audio_url :: "jsval \<Rightarrow> exn + jsval" where
  "normalize_audio_url taskData =
     (case get_prop taskData ''data'' of Inl e \<Rightarrow> Inl e | Inr songArray \<Rightarrow>
      if isArray songArray \<and> truthy (opt_prop (own0 songArray) ''audio_url'')
      then (case index0 songArray of Inl e \<Rightarrow> Inl e | Inr first \<Rightarrow> get_prop first ''audio_url'')
      else if truthy (opt_prop songArray ''audio_url'')
      then get_prop songArray ''audio_url''
      else (case get_prop taskData ''audio_url'' of Inl e \<Rightarrow> Inl e | Inr top_url \<Rightarrow>
            if truthy top_url then Inr top_url else Inr JNull))"

text \<open>
  What the handler does with the provider's answer: \<open>Some url\<close> when the job is finished
  and a URL was found, \<open>None\<close> when it is still running.
\<close>

definition resolve_poll :: "jsval \<Rightarrow> exn + jsval option" where
  "resolve_poll sunoData =
     (case unwrap_task sunoData of Inl e \<Rightarrow> Inl e | Inr taskData \<Rightarrow>
      case normalize_audio_url taskData of Inl e \<Rightarrow> Inl e | Inr audio_url \<Rightarrow>
      case get_prop taskData ''callbackType'' of Inl e \<Rightarrow> Inl e | Inr ct \<Rightarrow>
      if strict_eq ct (JStr ''complete'') \<and> truthy audio_url
      then Inr (Some audio_url) else Inr None)"

text \<open>
  The handler. \<open>getSunoMusicDetails\<close> is the provider's status query: it returns the
  response body or raises. The third component of the result lists the job ids the
  handler queried the provider with. The log lines of this handler print
  \<^verbatim>\<open>JSON.stringify\<close> of values parsed from JSON and the id of the request, a string;
  they do not raise.
\<close>

record poll_result =
  new_store :: store
  answer :: reply
  provider_calls :: "jsval list"

definition song_audio :: "(jsval \<Rightarrow> exn + jsval) \<Rightarrow> store \<Rightarrow> string \<Rightarrow> poll_result" where
  "song_audio getSunoMusicDetails st ident =
     (let sng = getSong st ident in
      if truthy (opt_field sng audioUrl)
      then \<lparr>new_store = st, answer = success (opt_field sng audioUrl), provider_calls = []\<rparr>
      else if \<not> truthy (opt_field sng sunoJobId)
      then \<lparr>new_store = st, answer = running, provider_calls = []\<rparr>
      else
        (let job = opt_field sng sunoJobId in
         case getSunoMusicDetails job of
           Inl e \<Rightarrow> \<lparr>new_store = st, answer = running, provider_calls = [job]\<rparr>
         | Inr sunoData \<Rightarrow>
            (case resolve_poll sunoData of
               Inl e \<Rightarrow> \<lparr>new_store = st, answer = running, provider_calls = [job]\<rparr>
             | Inr None \<Rightarrow> \<lparr>new_store = st, answer = running, provider_calls = [job]\<rparr>
             | Inr (Some url) \<Rightarrow>
                 \<lparr>new_store = fst (updateSong st ident (only_audioUrl url)),
                  answer = success url, provider_calls = [job]\<rparr>)))"

section \<open>The lyrics generator (\<^verbatim>\<open>generateSongWithAI\<close>)\<close>

text \<open>
  The answer of \<^verbatim>\<open>openai.chat.completions.create\<close>, as the SDK types it: a list of
  choices, each with a message whose content is a string or \<^verbatim>\<open>null\<close>. The prompt the
  function builds only feeds that call, whose outcome is an argument here, so it is left
  out.
\<close>

record chat_message =
  content :: "string option"

record chat_choice =
  choice_message :: "chat_message option"

record chat_completion =
  choices :: "chat_choice list"

text \<open>\<^verbatim>\<open>response.choices[0]?.message?.content || ""\<close>\<close>

definition response_text :: "chat_completion \<Rightarrow> string" where
  "response_text response =
     (case choices response of
        [] \<Rightarrow> []
      | c # _ \<Rightarrow>
         (case choice_message c of
            None \<Rightarrow> []
          | Some m \<Rightarrow> (case content m of None \<Rightarrow> [] | Some t \<Rightarrow> t)))"

text \<open>
  \<^verbatim>\<open>text.replace(/```json|```/g, "")\<close>: every match is removed, scanning from the left,
  the longer alternative first.
\<close>

fun strip_fences :: "string \<Rightarrow> string" where
  "strip_fences [] = []"
| "strip_fences (c # cs) =
     (if take 7 (c # cs) = ''```json'' then strip_fences (drop 6 cs)
      else if take 3 (c # cs) = ''```'' then strip_fences (drop 2 cs)
      else c # strip_fences cs)"

text \<open>
  \<^verbatim>\<open>String.prototype.trim\<close>: the white space and line terminators of ECMAScript among
  the code units below 256 are TAB, LF, VT, FF, CR, SP and NBSP.
\<close>

definition is_space :: "char \<Rightarrow> bool" where
  "is_space c =
     (c \<in> set [CHR 0x09, CHR 0x0A, CHR 0x0B, CHR 0x0C, CHR 0x0D, CHR 0x20, CHR 0xA0])"

definition trim :: "string \<Rightarrow> string" where
  "trim s = rev (dropWhile is_space (rev (dropWhile is_space s)))"

record generated =
  gen_title :: jsval
  gen_topic :: jsval
  gen_lyrics :: jsval
  gen_rhythmPattern :: jsval
  gen_culturalNotes :: jsval

text \<open>The object that stands for output that is not JSON, with the raw text as lyrics.\<close>

definition placeholder :: "string \<Rightarrow> (string \<times> jsval) list" where
  "placeholder l =
     [(''title'', JStr ''Untitled Song''), (''topic'', JStr ''General''), (''lyrics'', JStr l),
      (''rhythmPattern'', JStr []), (''culturalNotes'', JStr [])]"

text \<open>
  The body of the outer \<^verbatim>\<open>try\<close>. \<open>JSON_parse\<close> is \<^verbatim>\<open>JSON.parse\<close>, \<open>None\<close> where it
  raises a SyntaxError; \<open>completion\<close> is the outcome of the call to the text-generation
  service. Only \<^verbatim>\<open>JSON.parse\<close> stands inside the inner \<^verbatim>\<open>try\<close>: the reads of
  \<^verbatim>\<open>parsed.title\<close> and the other fields do not.
\<close>

definition generate_try ::
  "(string \<Rightarrow> jsval option) \<Rightarrow> exn + chat_completion \<Rightarrow> exn + generated" where
  "generate_try JSON_parse completion =
     (case completion of Inl e \<Rightarrow> Inl e | Inr response \<Rightarrow>
      (let text = response_text response;
           cleanJson = trim (strip_fences text)
       in if trim text = []
          then Inr \<lparr>gen_title = JStr ''Untitled Song'', gen_topic = JStr ''General'',
                    gen_lyrics = JStr [], gen_rhythmPattern = JStr [],
                    gen_culturalNotes = JStr []\<rparr>
          else
            (let parsed = (case JSON_parse cleanJson of
                             None \<Rightarrow> JObj (placeholder text)
                           | Some v \<Rightarrow> v)
             in case get_prop parsed ''title'' of Inl e \<Rightarrow> Inl e | Inr t \<Rightarrow>
                case get_prop parsed ''topic'' of Inl e \<Rightarrow> Inl e | Inr tp \<Rightarrow>
                case get_prop parsed ''lyrics'' of Inl e \<Rightarrow> Inl e | Inr l \<Rightarrow>
                case get_prop parsed ''rhythmPattern'' of Inl e \<Rightarrow> Inl e | Inr r \<Rightarrow>
                case get_prop parsed ''culturalNotes'' of Inl e \<Rightarrow> Inl e | Inr cn \<Rightarrow>
                Inr \<lparr>gen_title = js_or t (JStr ''Untitled Song''),
                     gen_topic = js_or tp (JStr ''General''),
                     gen_lyrics = js_or l (JStr []),
                     gen_rhythmPattern = js_or r (JStr []),
                     gen_culturalNotes = js_or cn (JStr [])\<rparr>)))"

text \<open>\<^verbatim>\<open>err instanceof Error ? err.message : fallback\<close>\<close>

definition message_or :: "exn \<Rightarrow> string \<Rightarrow> string" where
  "message_or err fallback = (case err of JsError m \<Rightarrow> m | NotAnError \<Rightarrow> fallback)"

definition generateSongWithAI ::
  "(string \<Rightarrow> jsval option) \<Rightarrow> exn + chat_completion \<Rightarrow> exn + generated" where
  "generateSongWithAI JSON_parse completion =
     (case generate_try JSON_parse completion of
        Inl err \<Rightarrow> Inl (JsError (message_or err ''Failed to generate song''))
      | Inr g \<Rightarrow> Inr g)"

section \<open>Job submission (\<^verbatim>\<open>generateMusicWithSuno\<close>)\<close>

text \<open>
  What \<^verbatim>\<open>fetch\<close> resolves to: the \<^verbatim>\<open>ok\<close> flag and the outcomes of \<^verbatim>\<open>text()\<close> and
  \<^verbatim>\<open>json()\<close>.
\<close>

record http_response =
  ok :: bool
  body_text :: "exn + string"
  body_json :: "exn + jsval"

text \<open>The result is the \<^verbatim>\<open>sunoJobId\<close> of the returned object.\<close>

definition generateMusicWithSuno :: "exn + http_response \<Rightarrow> exn + jsval" where
  "generateMusicWithSuno fetched =
     (case fetched of Inl e \<Rightarrow> Inl e | Inr response \<Rightarrow>
      if \<not> ok response
      then (case body_text response of
              Inl e \<Rightarrow> Inl e
            | Inr errorText \<Rightarrow> Inl (JsError (''Suno API error: '' @ errorText)))
      else
        (case body_json response of Inl e \<Rightarrow> Inl e | Inr json \<Rightarrow>
         case get_prop json ''data'' of Inl e \<Rightarrow> Inl e | Inr d \<Rightarrow>
         get_prop d ''taskId''))"

section \<open>Song creation: \<^verbatim>\<open>POST /api/songs/generate\<close>, \<^verbatim>\<open>POST /api/songs\<close>\<close>

text \<open>
  \<^verbatim>\<open>generateSongRequestSchema.safeParse\<close>: the body is an object, \<^verbatim>\<open>content\<close> a string
  of at least 10 code units, \<^verbatim>\<open>documentId\<close> a string or absent, \<^verbatim>\<open>musicalStyle\<close> and
  \<^verbatim>\<open>complexity\<close> one of their enumerations or absent (then the default).
\<close>

record generate_request =
  rq_content :: string
  rq_documentId :: jsval
  rq_musicalStyle :: string
  rq_complexity :: string

definition optional_string :: "jsval \<Rightarrow> jsval option" where
  "optional_string v =
     (case v of JUndefined \<Rightarrow> Some JUndefined | JStr s \<Rightarrow> Some (JStr s) | _ \<Rightarrow> None)"

definition enum_default :: "string list \<Rightarrow> string \<Rightarrow> jsval \<Rightarrow> string option" where
  "enum_default allowed dflt v =
     (case v of
        JUndefined \<Rightarrow> Some dflt
      | JStr s \<Rightarrow> (if s \<in> set allowed then Some s else None)
      | _ \<Rightarrow> None)"

definition safeParse :: "jsval \<Rightarrow> generate_request option" where
  "safeParse b =
     (case b of
        JObj kvs \<Rightarrow>
          (case own b ''content'' of
             JStr c \<Rightarrow>
               (if length c < 10 then None else
                case optional_string (own b ''documentId'') of None \<Rightarrow> None | Some d \<Rightarrow>
                case enum_default [''traditional'', ''highlife'', ''afrobeat'', ''palm-wine'']
                       ''traditional'' (own b ''musicalStyle'') of None \<Rightarrow> None | Some m \<Rightarrow>
                case enum_default [''simple'', ''moderate'', ''advanced'']
                       ''simple'' (own b ''complexity'') of None \<Rightarrow> None | Some x \<Rightarrow>
                Some \<lparr>rq_content = c, rq_documentId = d, rq_musicalStyle = m, rq_complexity = x\<rparr>)
           | _ \<Rightarrow> None)
      | _ \<Rightarrow> None)"

text \<open>
  \<^verbatim>\<open>POST /api/songs/generate\<close>. The arguments before the store are the outside world:
  \<^verbatim>\<open>JSON.parse\<close>, the outcomes of the text-generation call and of the submission
  \<^verbatim>\<open>fetch\<close>, the UUID and the clock. The 400 reply also carries Zod's list of issues,
  which is not modelled. The two \<^verbatim>\<open>console.log\<close> calls print objects through the
  inspector, which converts nothing with \<^verbatim>\<open>toString\<close> and does not raise.
\<close>

definition invalid_request :: reply where
  "invalid_request = Reply 400 (message ''Invalid request'')"

definition songs_generate ::
  "(string \<Rightarrow> jsval option) \<Rightarrow> exn + chat_completion \<Rightarrow> exn + http_response \<Rightarrow> string \<Rightarrow> int
     \<Rightarrow> store \<Rightarrow> jsval \<Rightarrow> store \<times> reply" where
  "songs_generate JSON_parse completion fetched uuid now st req_body =
     (case safeParse req_body of
        None \<Rightarrow> (st, invalid_request)
      | Some rq \<Rightarrow>
         (case generateSongWithAI JSON_parse completion of
            Inl e \<Rightarrow> (st, Reply 500 (message (message_or e ''Failed to generate song'')))
          | Inr g \<Rightarrow>
             (case generateMusicWithSuno fetched of
                Inl e \<Rightarrow> (st, Reply 500 (message (message_or e ''Failed to generate song'')))
              | Inr job \<Rightarrow>
                 (let (st', s) =
                    createSong st
                      \<lparr>ins_title = gen_title g, ins_topic = gen_topic g,
                       ins_lyrics = gen_lyrics g,
                       ins_rhythmPattern = gen_rhythmPattern g,
                       ins_culturalNotes = gen_culturalNotes g,
                       ins_musicalStyle = JStr (rq_musicalStyle rq),
                       ins_sourceDocumentId = js_or (rq_documentId rq) JNull,
                       ins_sourceText = JStr (take 500 (rq_content rq)),
                       ins_audioUrl = JUndefined,
                       ins_sunoJobId = job\<rparr> uuid now
                  in (st', Reply 201 (SongJson s))))))"

text \<open>\<^verbatim>\<open>POST /api/songs\<close>: the reads of \<^verbatim>\<open>req.body.title\<close> and the rest raise on a missing body.\<close>

definition songs_save :: "string \<Rightarrow> int \<Rightarrow> store \<Rightarrow> jsval \<Rightarrow> store \<times> reply" where
  "songs_save uuid now st req_body =
     (if nullish req_body then (st, Reply 500 (message ''Failed to save song''))
      else
        (let (st', s) =
           createSong st
             \<lparr>ins_title = own req_body ''title'', ins_topic = own req_body ''topic'',
              ins_lyrics = own req_body ''lyrics'',
              ins_rhythmPattern = js_or (own req_body ''rhythmPattern'') JNull,
              ins_culturalNotes = js_or (own req_body ''culturalNotes'') JNull,
              ins_musicalStyle = js_or (own req_body ''musicalStyle'') JNull,
              ins_sourceDocumentId = js_or (own req_body ''sourceDocumentId'') JNull,
              ins_sourceText = js_or (own req_body ''sourceText'') JNull,
              ins_audioUrl = JUndefined,
              ins_sunoJobId = JUndefined\<rparr> uuid now
         in (st', Reply 201 (SongJson s))))"

text \<open>\<^verbatim>\<open>DELETE /api/songs/:id\<close>\<close>

definition songs_delete :: "store \<Rightarrow> string \<Rightarrow> store \<times> reply" where
  "songs_delete st ident =
     (let (st', deleted) = deleteSong st ident
      in if \<not> deleted then (st', Reply 404 (message ''Song not found''))
         else (st', Reply 204 NoBody))"

section \<open>The stores the server can be in\<close>

text \<open>
  \<^verbatim>\<open>MemStorage\<close> starts with an empty map, and the five routes above are all that writes
  to it.
\<close>

inductive reachable :: "store \<Rightarrow> bool" where
  start: "reachable []"
| generated: "reachable st \<Longrightarrow> reachable (fst (songs_generate P c f u n st b))"
| saved: "reachable st \<Longrightarrow> reachable (fst (songs_save u n st b))"
| called_back: "reachable st \<Longrightarrow> reachable (fst (suno_callback st b))"
| polled: "reachable st \<Longrightarrow> reachable (new_store (song_audio d st i))"
| deleted: "reachable st \<Longrightarrow> reachable (fst (songs_delete st i))"

section \<open>Notions used in the statements\<close>

text \<open>Every stored \<open>audioUrl\<close> is \<^verbatim>\<open>null\<close> or a value that JavaScript takes as true.\<close>

definition audio_ok :: "store \<Rightarrow> bool" where
  "audio_ok st = (\<forall>s \<in> snd ` set st. audioUrl s = JNull \<or> truthy (audioUrl s))"

definition forget_audioUrl :: "song \<Rightarrow> song" where
  "forget_audioUrl s = s\<lparr>audioUrl := JNull\<rparr>"

text \<open>Two songs that agree on every field other than \<open>audioUrl\<close>.\<close>

definition same_except_audioUrl :: "song \<Rightarrow> song \<Rightarrow> bool" where
  "same_except_audioUrl s s' =
     (song_id s' = song_id s \<and> title s' = title s \<and> topic s' = topic s \<and> lyrics s' = lyrics s \<and>
      rhythmPattern s' = rhythmPattern s \<and> culturalNotes s' = culturalNotes s \<and>
      musicalStyle s' = musicalStyle s \<and> sourceDocumentId s' = sourceDocumentId s \<and>
      sourceText s' = sourceText s \<and> sunoJobId s' = sunoJobId s \<and> createdAt s' = createdAt s)"

text \<open>
  An entry of the store before and after a write to the song with id \<open>k\<close>: the same
  key, the same song but for \<open>audioUrl\<close>, and the very same song under any other key.
\<close>

definition unchanged_but :: "string \<Rightarrow> string \<times> song \<Rightarrow> string \<times> song \<Rightarrow> bool" where
  "unchanged_but k before after =
     (fst after = fst before \<and> same_except_audioUrl (snd before) (snd after) \<and>
      (fst before \<noteq> k \<longrightarrow> snd after = snd before))"

text \<open>
  A field of a parsed object as \<^verbatim>\<open>parsed.field || "default"\<close> reads it: the default
  when the field is absent or holds a value that JavaScript takes as false.
\<close>

definition field_or :: "(string \<times> jsval) list \<Rightarrow> string \<Rightarrow> string \<Rightarrow> jsval" where
  "field_or kvs n dflt =
     (case map_of kvs n of None \<Rightarrow> JStr dflt | Some v \<Rightarrow> if truthy v then v else JStr dflt)"

text \<open>
  The places where the specification looks for the audio URL of a status response, in its
  order: the first element of a sequence field, a bare object field, a top-level field.
  The normalised URL is the first of them that holds one, \<^verbatim>\<open>null\<close> when none does.
\<close>

definition spec_audio_url_places :: "jsval \<Rightarrow> jsval list" where
  "spec_audio_url_places taskData =
     [case own taskData ''data'' of JArr (x # xs) \<Rightarrow> opt_prop x ''audio_url'' | _ \<Rightarrow> JUndefined,
      case own taskData ''data'' of JObj kvs \<Rightarrow> own (JObj kvs) ''audio_url'' | _ \<Rightarrow> JUndefined,
      own taskData ''audio_url'']"

definition spec_audio_url :: "jsval \<Rightarrow> jsval" where
  "spec_audio_url taskData =
     (case find truthy (spec_audio_url_places taskData) of None \<Rightarrow> JNull | Some u \<Rightarrow> u)"

text \<open>
  The provider's webhook payload for a finished job, and the status response of the
  shape \<^verbatim>\<open>{data: {data: [{audio_url: x}], callbackType: ct}}\<close>.
\<close>

definition completion_webhook :: "jsval \<Rightarrow> jsval \<Rightarrow> jsval" where
  "completion_webhook task url =
     JObj [(''code'', JNum (Finite 200)),
           (''data'', JObj [(''task_id'', task), (''callbackType'', JStr ''complete''),
                            (''data'', JArr [JObj [(''audio_url'', url)]])])]"

definition status_response :: "jsval \<Rightarrow> jsval \<Rightarrow> jsval" where
  "status_response x ct =
     JObj [(''data'', JObj [(''data'', JArr [JObj [(''audio_url'', x)]]), (''callbackType'', ct)])]"

section \<open>Sample inputs\<close>

text \<open>
  \<^verbatim>\<open>JSON.parse\<close> on three texts; the examples apply it to these and to texts that are
  not JSON, where \<^verbatim>\<open>JSON.parse\<close> raises as well.
\<close>

definition JSON_parse_sample :: "string \<Rightarrow> jsval option" where
  \<open>JSON_parse_sample =
     map_of [(''null'', JNull),
             (''{"title":""}'', JObj [(''title'', JStr [])]),
             (''{"title":"Rain","lyrics":"Drip drop"}'',
                JObj [(''title'', JStr ''Rain''), (''lyrics'', JStr ''Drip drop'')])]\<close>

definition completion_of :: "string \<Rightarrow> exn + chat_completion" where
  "completion_of t = Inr \<lparr>choices = [\<lparr>choice_message = Some \<lparr>content = Some t\<rparr>\<rparr>]\<rparr>"

definition submitted :: "string \<Rightarrow> exn + http_response" where
  "submitted job =
     Inr \<lparr>ok = True, body_text = Inr [],
          body_json = Inr (JObj [(''code'', JNum (Finite 200)),
                                 (''data'', JObj [(''taskId'', JStr job)])])\<rparr>"

definition lesson :: jsval where
  "lesson = JObj [(''content'', JStr ''Water evaporates, then it rains.'')]"

definition song1 :: song where
  "song1 =
     \<lparr>song_id = ''s1'', title = JStr ''Untitled Song'', topic = JStr ''General'',
      lyrics = JStr ''La la la'', rhythmPattern = JStr [], culturalNotes = JStr [],
      musicalStyle = JStr ''traditional'', sourceDocumentId = JNull,
      sourceText = JStr ''Water evaporates, then it rains.'', audioUrl = JNull,
      sunoJobId = JStr ''job-1'', createdAt = 1000\<rparr>"

definition song2 :: song where
  "song2 = song1\<lparr>song_id := ''s2'', sunoJobId := JStr ''job-2'', createdAt := 2000\<rparr>"

definition store1 :: store where
  "store1 = [(''s1'', song1)]"

definition store2 :: store where
  "store2 = [(''s1'', song1), (''s2'', song2)]"

definition resolved1 :: store where
  "resolved1 = [(''s1'', song1\<lparr>audioUrl := JStr ''https://cdn.example/a.mp3''\<rparr>)]"

definition provider_down :: "jsval \<Rightarrow> exn + jsval" where
  "provider_down job = Inl (JsError ''Request failed with status code 404'')"

definition provider_says :: "jsval \<Rightarrow> jsval \<Rightarrow> exn + jsval" where
  "provider_says r job = Inr r"

definition saved_song :: song where
  "saved_song =
     \<lparr>song_id = ''s2'', title = JStr ''Rain'', topic = JStr ''Weather'', lyrics = JStr ''Drip drop'',
      rhythmPattern = JNull, culturalNotes = JNull, musicalStyle = JNull, sourceDocumentId = JNull,
      sourceText = JNull, audioUrl = JNull, sunoJobId = JNull, createdAt = 2000\<rparr>"

text \<open>A webhook payload as the provider sends it, with two rendered tracks.\<close>

definition provider_webhook :: jsval where
  "provider_webhook =
     JObj [(''code'', JNum (Finite 200)), (''msg'', JStr ''All generated successfully.''),
           (''data'',
            JObj [(''callbackType'', JStr ''complete''), (''task_id'', JStr ''job-1''),
                  (''data'',
                   JArr [JObj [(''id'', JStr ''t1''), (''audio_url'', JStr ''https://cdn.example/b.mp3''),
                               (''duration'', JNum (Finite 198))],
                         JObj [(''id'', JStr ''t2''), (''audio_url'', JStr ''https://cdn.example/c.mp3'')]])])]"

text \<open>An answer of the submission endpoint with status 200 and no \<^verbatim>\<open>taskId\<close>.\<close>

definition accepted_without_id :: "exn + http_response" where
  "accepted_without_id =
     Inr \<lparr>ok = True, body_text = Inr [],
          body_json = Inr (JObj [(''code'', JNum (Finite 200)), (''data'', JObj [])])\<rparr>"

text \<open>
  Status responses that carry the URL in each of the three places: a wrapped answer with a
  list of tracks, a wrapped answer with a single track object, and an answer with the URL
  beside the list of tracks.
\<close>

definition status_sequence :: jsval where
  "status_sequence =
     JObj [(''code'', JNum (Finite 200)), (''msg'', JStr ''success''),
           (''data'',
            JObj [(''taskId'', JStr ''job-1''), (''callbackType'', JStr ''complete''),
                  (''data'',
                   JArr [JObj [(''id'', JStr ''t1''), (''audio_url'', JStr ''https://cdn.example/a.mp3'')],
                         JObj [(''id'', JStr ''t2''), (''audio_url'', JStr ''https://cdn.example/c.mp3'')]]),
                  (''audio_url'', JStr ''https://cdn.example/top.mp3'')])]"

definition status_object :: jsval where
  "status_object =
     JObj [(''code'', JNum (Finite 200)),
           (''data'',
            JObj [(''callbackType'', JStr ''complete''),
                  (''data'', JObj [(''id'', JStr ''t1''), (''audio_url'', JStr ''https://cdn.example/a.mp3'')]),
                  (''audio_url'', JStr ''https://cdn.example/top.mp3'')])]"

definition status_top_level :: jsval where
  "status_top_level =
     JObj [(''code'', JNum (Finite 200)),
           (''data'',
            JObj [(''callbackType'', JStr ''complete''), (''audio_url'', JStr ''https://cdn.example/a.mp3''),
                  (''data'', JArr [JObj [(''id'', JStr ''t1'')]])])]"

section \<open>Lemmas\<close>

subsection \<open>Writes to the store\<close>

lemma set_update_subset: "set (AList.update k v al) \<subseteq> insert (k, v) (set al)"
  by (induction al) auto

lemma set_delete_subset: "set (AList.delete k al) \<subseteq> set al"
  by (induction al) auto

lemma spread_only_audioUrl: "spread s (only_audioUrl v) = s\<lparr>audioUrl := v\<rparr>"
  by (simp add: spread_def only_audioUrl_def no_updates_def pick_def)

lemma updateSong_audioUrl:
  "fst (updateSong st k (only_audioUrl v)) =
     (case map_of st k of None \<Rightarrow> st | Some s \<Rightarrow> AList.update k (s\<lparr>audioUrl := v\<rparr>) st)"
  by (simp add: updateSong_def spread_only_audioUrl Let_def split: option.splits)

lemma getSong_updateSong:
  "getSong st k = Some s \<Longrightarrow>
   getSong (fst (updateSong st k (only_audioUrl v))) k' = (if k' = k then Some (s\<lparr>audioUrl := v\<rparr>) else getSong st k')"
  by (simp add: getSong_def updateSong_audioUrl update_conv')

lemma updateSong_twice:
  "fst (updateSong (fst (updateSong st k (only_audioUrl v))) k (only_audioUrl v)) = fst (updateSong st k (only_audioUrl v))"
proof (cases "map_of st k")
  case None
  then show ?thesis by (simp add: updateSong_audioUrl)
next
  case (Some s)
  have "map_of (AList.update k (s\<lparr>audioUrl := v\<rparr>) st) k = Some (s\<lparr>audioUrl := v\<rparr>)"
    by (simp add: update_conv')
  then show ?thesis
    by (simp add: updateSong_audioUrl Some update_triv)
qed

subsection \<open>Every stored \<open>audioUrl\<close> is null or true to JavaScript\<close>

lemma audio_ok_update:
  "audio_ok st \<Longrightarrow> audioUrl s = JNull \<or> truthy (audioUrl s) \<Longrightarrow> audio_ok (AList.update k s st)"
  unfolding audio_ok_def using set_update_subset [of k s st] by fastforce

lemma audio_ok_updateSong:
  "audio_ok st \<Longrightarrow> truthy v \<Longrightarrow> audio_ok (fst (updateSong st k (only_audioUrl v)))"
  by (simp add: updateSong_audioUrl audio_ok_update split: option.splits)

lemma audio_ok_createSong:
  "audio_ok st \<Longrightarrow> ins_audioUrl i = JUndefined \<Longrightarrow> audio_ok (fst (createSong st i u n))"
  by (simp add: createSong_def Let_def audio_ok_update js_coalesce_def nullish_def)

lemma audio_ok_delete: "audio_ok st \<Longrightarrow> audio_ok (AList.delete k st)"
  unfolding audio_ok_def using set_delete_subset [of k st] by fastforce

lemma callback_try_cases:
  "fst (callback_try st b) = st \<or>
   (\<exists>k v. truthy v \<and> fst (callback_try st b) = fst (updateSong st k (only_audioUrl v)))"
  by (auto simp: callback_try_def get_prop_def opt_prop_def index0_def Let_def
      split: sum.splits option.splits if_splits)

lemma suno_callback_store: "fst (suno_callback st b) = fst (callback_try st b)"
  by (simp add: suno_callback_def split: prod.splits sum.splits)

lemma suno_callback_cases:
  "fst (suno_callback st b) = st \<or>
   (\<exists>k v. truthy v \<and> fst (suno_callback st b) = fst (updateSong st k (only_audioUrl v)))"
  unfolding suno_callback_store by (rule callback_try_cases)

lemma resolve_poll_truthy: "resolve_poll d = Inr (Some url) \<Longrightarrow> truthy url"
  by (auto simp: resolve_poll_def split: sum.splits if_splits)

lemma song_audio_cases:
  "new_store (song_audio d st i) = st \<or>
   (\<exists>v. truthy v \<and> new_store (song_audio d st i) = fst (updateSong st i (only_audioUrl v)))"
  by (auto simp: song_audio_def Let_def dest: resolve_poll_truthy split: sum.splits option.splits)

lemma audio_ok_songs_generate:
  "audio_ok st \<Longrightarrow> audio_ok (fst (songs_generate P c f u n st b))"
  by (simp add: songs_generate_def case_prod_beta audio_ok_createSong
      split: option.splits sum.splits)

lemma audio_ok_songs_save:
  "audio_ok st \<Longrightarrow> audio_ok (fst (songs_save u n st b))"
  by (simp add: songs_save_def case_prod_beta audio_ok_createSong)

lemma reachable_audio_ok: "reachable st \<Longrightarrow> audio_ok st"
proof (induction rule: reachable.induct)
  case start
  show ?case by (simp add: audio_ok_def)
next
  case (generated st P c f u n b)
  then show ?case by (simp add: audio_ok_songs_generate)
next
  case (saved st u n b)
  then show ?case by (simp add: audio_ok_songs_save)
next
  case (called_back st b)
  with suno_callback_cases [of st b] show ?case by (auto simp: audio_ok_updateSong)
next
  case (polled st d i)
  with song_audio_cases [of d st i] show ?case by (auto simp: audio_ok_updateSong)
next
  case (deleted st i)
  then show ?case by (simp add: songs_delete_def deleteSong_def audio_ok_delete)
qed

subsection \<open>The listing is the same after a write to \<open>audioUrl\<close>\<close>

lemma insort_key_map_commute:
  assumes "\<And>y. f (g y) = f y"
  shows "insort_key f (g x) (map g xs) = map g (insort_key f x xs)"
  by (induction xs) (simp_all add: assms)

lemma sort_key_map_commute:
  assumes "\<And>y. f (g y) = f y"
  shows "sort_key f (map g xs) = map g (sort_key f xs)"
  by (induction xs) (simp_all add: insort_key_map_commute assms)

lemma getSongs_forget:
  "map forget_audioUrl (getSongs st) = sort_key (\<lambda>s. - createdAt s) (map (forget_audioUrl \<circ> snd) st)"
  by (simp add: getSongs_def sort_key_map_commute [symmetric] forget_audioUrl_def)

lemma forget_update:
  "map_of st k = Some s \<Longrightarrow>
   map (forget_audioUrl \<circ> snd) (AList.update k (s\<lparr>audioUrl := v\<rparr>) st) = map (forget_audioUrl \<circ> snd) st"
  by (induction st) (simp_all add: forget_audioUrl_def split: if_splits)

lemma forget_updateSong:
  "map (forget_audioUrl \<circ> snd) (fst (updateSong st k (only_audioUrl v))) = map (forget_audioUrl \<circ> snd) st"
  by (simp add: updateSong_audioUrl forget_update split: option.splits)

lemma getSongs_updateSong:
  "map forget_audioUrl (getSongs (fst (updateSong st k (only_audioUrl v)))) = map forget_audioUrl (getSongs st)"
  by (simp only: getSongs_forget forget_updateSong)

lemma find_forget:
  assumes "map g xs = map g ys" and "\<And>a b. g a = g b \<Longrightarrow> P a = P b"
  shows "map_option g (find P xs) = map_option g (find P ys)"
  using assms(1)
proof (induction xs arbitrary: ys)
  case Nil
  then show ?case by simp
next
  case (Cons x xs)
  then obtain y ys' where ys: "ys = y # ys'" "g x = g y" "map g xs = map g ys'" by (cases ys) auto
  with Cons.IH [of ys'] assms(2) [of x y] show ?case by auto
qed

lemma forget_sunoJobId: "forget_audioUrl a = forget_audioUrl b \<Longrightarrow> sunoJobId a = sunoJobId b"
  by (cases a; cases b) (simp add: forget_audioUrl_def)

lemma forget_song_id: "forget_audioUrl a = forget_audioUrl b \<Longrightarrow> song_id a = song_id b"
  by (cases a; cases b) (simp add: forget_audioUrl_def)

lemma find_after_update:
  "map_option forget_audioUrl (find (\<lambda>s. strict_eq (sunoJobId s) t) (getSongs (fst (updateSong st k (only_audioUrl v)))))
   = map_option forget_audioUrl (find (\<lambda>s. strict_eq (sunoJobId s) t) (getSongs st))"
proof (rule find_forget [where g = forget_audioUrl and P = "\<lambda>s. strict_eq (sunoJobId s) t"])
  show "map forget_audioUrl (getSongs (fst (updateSong st k (only_audioUrl v)))) = map forget_audioUrl (getSongs st)"
    by (rule getSongs_updateSong)
next
  fix a b assume "forget_audioUrl a = forget_audioUrl b"
  then have "sunoJobId a = sunoJobId b" by (rule forget_sunoJobId)
  then show "strict_eq (sunoJobId a) t = strict_eq (sunoJobId b) t" by simp
qed

subsection \<open>The webhook handler\<close>

lemma callback_try_factor:
  "\<exists>pv :: exn + jsval \<times> jsval option. \<forall>st. fst (callback_try st b) =
     (case pv of
        Inl e \<Rightarrow> st
      | Inr (t, u) \<Rightarrow>
         (case find (\<lambda>s. strict_eq (sunoJobId s) t) (getSongs st) of
            None \<Rightarrow> st
          | Some sng \<Rightarrow>
             (case u of
                None \<Rightarrow> st
              | Some url \<Rightarrow> fst (updateSong st (song_id sng) (only_audioUrl url)))))"
proof -
  define pv :: "exn + jsval \<times> jsval option" where
    "pv = (case destructure_data b of Inl e \<Rightarrow> Inl e | Inr data \<Rightarrow>
           case get_prop data ''task_id'' of Inl e \<Rightarrow> Inl e | Inr t \<Rightarrow>
           Inr (t, if strict_eq (own data ''callbackType'') (JStr ''complete'') \<and> truthy (own data ''data'')
                      \<and> truthy (opt_prop (own0 (own data ''data'')) ''audio_url'')
                   then Some (own (own0 (own data ''data'')) ''audio_url'') else None))"
  show ?thesis
    apply (rule exI [of _ pv])
    apply (auto simp: pv_def callback_try_def get_prop_def index0_def opt_prop_def nullish_def Let_def
        split: sum.splits option.splits)
    done
qed

lemma suno_callback_twice:
  "fst (suno_callback (fst (suno_callback st b)) b) = fst (suno_callback st b)"
proof -
  obtain pv :: "exn + jsval \<times> jsval option" where pv: "\<And>st. fst (callback_try st b) =
     (case pv of
        Inl e \<Rightarrow> st
      | Inr (t, u) \<Rightarrow>
         (case find (\<lambda>s. strict_eq (sunoJobId s) t) (getSongs st) of
            None \<Rightarrow> st
          | Some sng \<Rightarrow>
             (case u of
                None \<Rightarrow> st
              | Some url \<Rightarrow> fst (updateSong st (song_id sng) (only_audioUrl url)))))"
    using callback_try_factor [of b] by blast
  show ?thesis
  proof (cases pv)
    case (Inl e)
    then show ?thesis by (simp add: suno_callback_store pv)
  next
    case (Inr p)
    obtain t u where p: "p = (t, u)" by (cases p)
    show ?thesis
    proof (cases "find (\<lambda>s. strict_eq (sunoJobId s) t) (getSongs st)")
      case None
      then show ?thesis by (simp add: suno_callback_store pv Inr p)
    next
      case (Some sng)
      show ?thesis
      proof (cases u)
        case None
        then show ?thesis by (simp add: suno_callback_store pv Inr p Some)
      next
        case (Some url)
        let ?st' = "fst (updateSong st (song_id sng) (only_audioUrl url))"
        have first: "fst (suno_callback st b) = ?st'"
          by (simp add: suno_callback_store pv Inr p \<open>find _ _ = Some sng\<close> Some)
        from find_after_update [of t st "song_id sng" url] \<open>find _ _ = Some sng\<close>
        obtain sng' where f': "find (\<lambda>s. strict_eq (sunoJobId s) t) (getSongs ?st') = Some sng'"
          and same: "forget_audioUrl sng' = forget_audioUrl sng"
          by auto
        have "fst (suno_callback ?st' b) = fst (updateSong ?st' (song_id sng') (only_audioUrl url))"
          by (simp add: suno_callback_store pv Inr p f' Some)
        also have "\<dots> = ?st'"
          by (simp only: forget_song_id [OF same] updateSong_twice)
        finally show ?thesis by (simp add: first)
      qed
    qed
  qed
qed

lemma callback_not_found:
  assumes "destructure_data b = Inr data" and "get_prop data ''task_id'' = Inr t"
    and "\<forall>s \<in> snd ` set st. \<not> strict_eq (sunoJobId s) t"
  shows "suno_callback st b =
           (st, if printable t then Reply 404 (message ''Song not found'')
                else Reply 500 (message ''Failed to process callback''))"
proof -
  have "find (\<lambda>s. strict_eq (sunoJobId s) t) (getSongs st) = None"
    using assms(3) by (auto simp: find_None_iff getSongs_def)
  with assms(1,2) show ?thesis
    by (simp add: suno_callback_def callback_try_def template_literal_def)
qed

lemma callback_overwrites:
  assumes "destructure_data b = Inr data" and "get_prop data ''task_id'' = Inr t"
    and "own data ''callbackType'' = JStr ''complete''" and "truthy (own data ''data'')"
    and "opt_prop (own0 (own data ''data'')) ''audio_url'' = url" and "truthy url"
    and "find (\<lambda>s. strict_eq (sunoJobId s) t) (getSongs st) = Some sng"
    and "getSong st (song_id sng) = Some s"
  shows "suno_callback st b =
           (AList.update (song_id sng) (s\<lparr>audioUrl := url\<rparr>) st,
            if printable url then received else Reply 500 (message ''Failed to process callback''))"
proof -
  from assms(2) have nn: "\<not> nullish data" by (auto simp: get_prop_def split: if_splits)
  from assms(4) have nd: "\<not> nullish (own data ''data'')" by (auto simp: nullish_def)
  from assms(5,6) have nf: "\<not> nullish (own0 (own data ''data''))"
    by (auto simp: opt_prop_def split: if_splits)
  with assms(5) have u: "own (own0 (own data ''data'')) ''audio_url'' = url"
    by (simp add: opt_prop_def)
  from assms nn nd nf u show ?thesis
    by (simp add: suno_callback_def callback_try_def get_prop_def index0_def Let_def
        updateSong_audioUrl getSong_def template_literal_def)
qed

lemma completion_webhook_parts:
  "destructure_data (completion_webhook t url) =
     Inr (JObj [(''task_id'', t), (''callbackType'', JStr ''complete''),
                (''data'', JArr [JObj [(''audio_url'', url)]])])"
  by (simp add: destructure_data_def completion_webhook_def nullish_def)

subsection \<open>The poll handler\<close>

lemma strict_eq_JStr: "strict_eq v (JStr s) = (v = JStr s)"
  by (cases v) auto

lemma resolve_poll_shape:
  "resolve_poll (status_response x ct) = Inr (if ct = JStr ''complete'' \<and> truthy x then Some x else None)"
  by (simp add: resolve_poll_def unwrap_task_def normalize_audio_url_def status_response_def
      get_prop_def nullish_def js_or_def opt_prop_def index0_def strict_eq_JStr)

lemma resolve_poll_no_url:
  "unwrap_task r = Inr t \<Longrightarrow> normalize_audio_url t = Inr JNull \<Longrightarrow> resolve_poll r = Inr None \<or> (\<exists>e. resolve_poll r = Inl e)"
  by (simp add: resolve_poll_def split: sum.splits)

lemma song_audio_resolved:
  "getSong st ident = Some s \<Longrightarrow> truthy (audioUrl s) \<Longrightarrow>
   song_audio details st ident = \<lparr>new_store = st, answer = success (audioUrl s), provider_calls = []\<rparr>"
  by (simp add: song_audio_def opt_field_def)

lemma song_audio_pending:
  assumes "getSong st ident = Some s" and "audioUrl s = JNull" and "truthy (sunoJobId s)"
    and "details (sunoJobId s) = Inr r"
  shows "song_audio details st ident =
     (case resolve_poll r of
        Inr (Some url) \<Rightarrow> \<lparr>new_store = AList.update ident (s\<lparr>audioUrl := url\<rparr>) st,
                            answer = success url, provider_calls = [sunoJobId s]\<rparr>
      | _ \<Rightarrow> \<lparr>new_store = st, answer = running, provider_calls = [sunoJobId s]\<rparr>)"
  using assms
  by (simp add: song_audio_def opt_field_def Let_def updateSong_audioUrl getSong_def
      split: sum.splits option.splits)

lemma success_inject: "success u = success v \<Longrightarrow> u = v"
  by (simp add: success_def)

lemma song_audio_success:
  assumes "answer (song_audio details st ident) = success u"
  shows "\<exists>s. getSong (new_store (song_audio details st ident)) ident = Some s \<and> audioUrl s = u \<and> truthy u"
proof (cases "getSong st ident")
  case None
  with assms show ?thesis
    by (simp add: song_audio_def opt_field_def success_def running_def)
next
  case (Some s0)
  show ?thesis
  proof (cases "truthy (audioUrl s0)")
    case True
    with Some assms show ?thesis
      by (auto simp: song_audio_resolved dest: success_inject)
  next
    case False
    with Some assms show ?thesis
      by (auto simp: song_audio_def opt_field_def Let_def getSong_updateSong
          success_def running_def dest: resolve_poll_truthy
          split: if_splits sum.splits option.splits)
  qed
qed

lemma song_audio_after_success:
  assumes "answer (song_audio details st ident) = success u"
  shows "song_audio details' (new_store (song_audio details st ident)) ident =
     \<lparr>new_store = new_store (song_audio details st ident), answer = success u, provider_calls = []\<rparr>"
proof -
  from song_audio_success [OF assms] obtain s
    where "getSong (new_store (song_audio details st ident)) ident = Some s" "audioUrl s = u" "truthy u"
    by blast
  then show ?thesis using song_audio_resolved [of "new_store (song_audio details st ident)" ident s details']
    by simp
qed

lemma normalize_sequence:
  "map_of kvs ''data'' = Some (JArr (f # fs)) \<Longrightarrow> truthy (opt_prop f ''audio_url'') \<Longrightarrow>
   normalize_audio_url (JObj kvs) = Inr (own f ''audio_url'')"
  by (auto simp: normalize_audio_url_def get_prop_def nullish_def index0_def opt_prop_def
      split: if_splits)

lemma normalize_object:
  "map_of kvs ''data'' = Some (JObj ob) \<Longrightarrow> map_of ob ''audio_url'' = Some u \<Longrightarrow> truthy u \<Longrightarrow>
   normalize_audio_url (JObj kvs) = Inr u"
  by (simp add: normalize_audio_url_def get_prop_def nullish_def opt_prop_def)

lemma normalize_top_level:
  "\<not> nullish t \<Longrightarrow>
   \<not> (isArray (own t ''data'') \<and> truthy (opt_prop (own0 (own t ''data'')) ''audio_url'')) \<Longrightarrow>
   \<not> truthy (opt_prop (own t ''data'') ''audio_url'') \<Longrightarrow>
   normalize_audio_url t = Inr (if truthy (own t ''audio_url'') then own t ''audio_url'' else JNull)"
  by (auto simp: normalize_audio_url_def get_prop_def)

lemma normalize_is_spec_audio_url:
  assumes "\<not> nullish t"
  shows "normalize_audio_url t = Inr (spec_audio_url t)"
proof (cases "own t ''data''")
  case (JArr xs)
  with assms show ?thesis
    by (cases xs)
       (simp_all add: normalize_audio_url_def spec_audio_url_def spec_audio_url_places_def get_prop_def
          index0_def opt_prop_def nullish_def)
next
  case (JObj kvs)
  with assms show ?thesis
    by (simp add: normalize_audio_url_def spec_audio_url_def spec_audio_url_places_def get_prop_def
        opt_prop_def nullish_def)
qed (use assms in \<open>simp_all add: normalize_audio_url_def spec_audio_url_def spec_audio_url_places_def
       get_prop_def opt_prop_def nullish_def\<close>)

lemma resolve_poll_general:
  assumes "\<not> nullish r"
  shows "resolve_poll r =
     Inr (if own (js_or (own r ''data'') r) ''callbackType'' = JStr ''complete'' \<and>
             truthy (spec_audio_url (js_or (own r ''data'') r))
          then Some (spec_audio_url (js_or (own r ''data'') r)) else None)"
proof -
  let ?t = "js_or (own r ''data'') r"
  have t: "\<not> nullish ?t"
    using assms by (auto simp: js_or_def nullish_def)
  have "unwrap_task r = Inr ?t"
    using assms by (simp add: unwrap_task_def get_prop_def)
  with t normalize_is_spec_audio_url [OF t] show ?thesis
    by (simp add: resolve_poll_def get_prop_def strict_eq_JStr)
qed

lemma resolve_poll_nullish: "nullish r \<Longrightarrow> \<exists>e. resolve_poll r = Inl e"
  by (simp add: resolve_poll_def unwrap_task_def get_prop_def)

subsection \<open>The frame of a write\<close>

lemma unchanged_but_refl: "list_all2 (unchanged_but k) st st"
  by (simp add: list_all2_same unchanged_but_def same_except_audioUrl_def)

lemma unchanged_but_update:
  "map_of st k = Some s \<Longrightarrow> list_all2 (unchanged_but k) st (AList.update k (s\<lparr>audioUrl := v\<rparr>) st)"
proof (induction st)
  case Nil
  then show ?case by simp
next
  case (Cons p st)
  show ?case
  proof (cases "fst p = k")
    case True
    with Cons.prems have p: "p = (k, s)" by (cases p) simp
    have "unchanged_but k (k, s) (k, s\<lparr>audioUrl := v\<rparr>)"
      by (simp add: unchanged_but_def same_except_audioUrl_def)
    then show ?thesis by (simp add: p unchanged_but_refl)
  next
    case False
    have "unchanged_but k p p"
      by (simp add: unchanged_but_def same_except_audioUrl_def)
    with False Cons show ?thesis by (cases p) simp
  qed
qed

lemma unchanged_but_updateSong:
  "list_all2 (unchanged_but k) st (fst (updateSong st k (only_audioUrl v)))"
  by (simp add: updateSong_audioUrl unchanged_but_refl unchanged_but_update split: option.splits)

subsection \<open>Song creation\<close>

lemma createSong_fields:
  "fst (createSong st i u n) = AList.update u (snd (createSong st i u n)) st \<and>
   song_id (snd (createSong st i u n)) = u \<and>
   audioUrl (snd (createSong st i u n)) = js_coalesce (ins_audioUrl i) JNull \<and>
   sunoJobId (snd (createSong st i u n)) = js_coalesce (ins_sunoJobId i) JNull"
  by (simp add: createSong_def Let_def)

lemma songs_generate_created:
  assumes "safeParse b = Some rq" and "generateSongWithAI P c = Inr g" and "generateMusicWithSuno f = Inr job"
  shows "\<exists>s. songs_generate P c f u n st b = (AList.update u s st, Reply 201 (SongJson s)) \<and>
             song_id s = u \<and> audioUrl s = JNull \<and> sunoJobId s = js_coalesce job JNull"
proof -
  let ?i = "\<lparr>ins_title = gen_title g, ins_topic = gen_topic g, ins_lyrics = gen_lyrics g,
             ins_rhythmPattern = gen_rhythmPattern g, ins_culturalNotes = gen_culturalNotes g,
             ins_musicalStyle = JStr (rq_musicalStyle rq),
             ins_sourceDocumentId = js_or (rq_documentId rq) JNull,
             ins_sourceText = JStr (take 500 (rq_content rq)),
             ins_audioUrl = JUndefined, ins_sunoJobId = job\<rparr>"
  have "songs_generate P c f u n st b =
          (fst (createSong st ?i u n), Reply 201 (SongJson (snd (createSong st ?i u n))))"
    using assms by (simp add: songs_generate_def case_prod_beta)
  with createSong_fields [of st ?i u n] show ?thesis
    by (intro exI [of _ "snd (createSong st ?i u n)"]) (simp add: js_coalesce_def nullish_def)
qed

lemma songs_generate_failed:
  "safeParse b = None \<or> (\<exists>e. generateSongWithAI P c = Inl e) \<or> (\<exists>e. generateMusicWithSuno f = Inl e) \<Longrightarrow>
   fst (songs_generate P c f u n st b) = st \<and> \<not> is_success (snd (songs_generate P c f u n st b))"
  by (auto simp: songs_generate_def is_success_def invalid_request_def split: option.splits sum.splits)

lemma songs_save_created:
  assumes "\<not> nullish b"
  shows "\<exists>s. songs_save u n st b = (AList.update u s st, Reply 201 (SongJson s)) \<and>
             song_id s = u \<and> audioUrl s = JNull \<and> sunoJobId s = JNull"
proof -
  let ?i = "\<lparr>ins_title = own b ''title'', ins_topic = own b ''topic'',
              ins_lyrics = own b ''lyrics'',
              ins_rhythmPattern = js_or (own b ''rhythmPattern'') JNull,
              ins_culturalNotes = js_or (own b ''culturalNotes'') JNull,
              ins_musicalStyle = js_or (own b ''musicalStyle'') JNull,
              ins_sourceDocumentId = js_or (own b ''sourceDocumentId'') JNull,
              ins_sourceText = js_or (own b ''sourceText'') JNull,
              ins_audioUrl = JUndefined,
              ins_sunoJobId = JUndefined\<rparr>"
  have "songs_save u n st b =
          (fst (createSong st ?i u n), Reply 201 (SongJson (snd (createSong st ?i u n))))"
    using assms by (simp add: songs_save_def case_prod_beta)
  with createSong_fields [of st ?i u n] show ?thesis
    by (intro exI [of _ "snd (createSong st ?i u n)"]) (simp add: js_coalesce_def nullish_def)
qed

subsection \<open>The lyrics generator\<close>

lemma trim_nonempty: "trim s \<noteq> [] \<Longrightarrow> s \<noteq> []"
  by (auto simp: trim_def)

lemma generate_not_json:
  assumes "trim (response_text resp) \<noteq> []"
    and "P (trim (strip_fences (response_text resp))) = None"
  shows "generateSongWithAI P (Inr resp) =
     Inr \<lparr>gen_title = JStr ''Untitled Song'', gen_topic = JStr ''General'',
          gen_lyrics = JStr (response_text resp), gen_rhythmPattern = JStr [],
          gen_culturalNotes = JStr []\<rparr>"
  using assms trim_nonempty [OF assms(1)]
  by (simp add: generateSongWithAI_def generate_try_def Let_def placeholder_def get_prop_def
      nullish_def js_or_def)

lemma own_field_or: "js_or (own (JObj kvs) n) (JStr d) = field_or kvs n d"
  by (simp add: js_or_def field_or_def split: option.splits)

lemma generate_object:
  assumes "trim (response_text resp) \<noteq> []"
    and "P (trim (strip_fences (response_text resp))) = Some (JObj kvs)"
  shows "generateSongWithAI P (Inr resp) =
     Inr \<lparr>gen_title = field_or kvs ''title'' ''Untitled Song'',
          gen_topic = field_or kvs ''topic'' ''General'',
          gen_lyrics = field_or kvs ''lyrics'' [],
          gen_rhythmPattern = field_or kvs ''rhythmPattern'' [],
          gen_culturalNotes = field_or kvs ''culturalNotes'' []\<rparr>"
proof -
  have "\<And>n. get_prop (JObj kvs) n = Inr (own (JObj kvs) n)"
    by (simp add: get_prop_def nullish_def)
  with assms show ?thesis
    by (simp add: generateSongWithAI_def generate_try_def Let_def own_field_or del: own.simps)
qed

lemma generation_failure_iff:
  "(\<exists>e. generateSongWithAI P c = Inl e) \<longleftrightarrow>
     (\<exists>e. c = Inl e) \<or>
     (\<exists>resp v. c = Inr resp \<and> trim (response_text resp) \<noteq> [] \<and>
               P (trim (strip_fences (response_text resp))) = Some v \<and> nullish v)"
proof (cases c)
  case (Inl e)
  then show ?thesis by (simp add: generateSongWithAI_def generate_try_def)
next
  case (Inr resp)
  show ?thesis
  proof (cases "trim (response_text resp) = []")
    case True
    with Inr show ?thesis by (simp add: generateSongWithAI_def generate_try_def Let_def)
  next
    case False
    show ?thesis
    proof (cases "P (trim (strip_fences (response_text resp)))")
      case None
      with Inr False generate_not_json [of resp P] show ?thesis by simp
    next
      case (Some v)
      with Inr False show ?thesis
        by (simp add: generateSongWithAI_def generate_try_def Let_def get_prop_def)
    qed
  qed
qed

subsection \<open>The sample inputs\<close>

lemma store1_generated:
  "songs_generate JSON_parse_sample (completion_of ''La la la'') (submitted ''job-1'') ''s1'' 1000 [] lesson
   = (store1, Reply 201 (SongJson song1))"
  by (simp add: songs_generate_def safeParse_def lesson_def optional_string_def enum_default_def
      generateSongWithAI_def generate_try_def completion_of_def response_text_def trim_def is_space_def
      JSON_parse_sample_def placeholder_def get_prop_def nullish_def js_or_def
      generateMusicWithSuno_def submitted_def createSong_def js_coalesce_def store1_def song1_def
      Let_def)

lemma store1_resolved:
  "suno_callback store1 (completion_webhook (JStr ''job-1'') (JStr ''https://cdn.example/a.mp3''))
   = ([(''s1'', song1\<lparr>audioUrl := JStr ''https://cdn.example/a.mp3''\<rparr>)], received)"
  by (simp add: suno_callback_def callback_try_def completion_webhook_def destructure_data_def
      get_prop_def nullish_def getSongs_def store1_def song1_def index0_def opt_prop_def
      updateSong_audioUrl template_literal_def Let_def)

lemma reachable_store1: "reachable store1"
  using reachable.generated [OF reachable.start, of JSON_parse_sample "completion_of ''La la la''"
      "submitted ''job-1''" "''s1''" 1000 lesson]
  by (simp add: store1_generated)

lemma reachable_resolved1: "reachable resolved1"
  using reachable.called_back [OF reachable_store1,
      of "completion_webhook (JStr ''job-1'') (JStr ''https://cdn.example/a.mp3'')"]
  by (simp add: store1_resolved resolved1_def)

lemma store2_songs: "getSongs store2 = [song2, song1]"
  by (simp add: getSongs_def store2_def song1_def song2_def)

lemma store2_callback:
  "suno_callback store2 (completion_webhook (JStr ''job-1'') (JStr ''https://cdn.example/a.mp3''))
   = ([(''s1'', song1\<lparr>audioUrl := JStr ''https://cdn.example/a.mp3''\<rparr>), (''s2'', song2)], received)"
  by (simp add: suno_callback_def callback_try_def completion_webhook_def destructure_data_def
      get_prop_def nullish_def store2_songs index0_def opt_prop_def updateSong_audioUrl
      template_literal_def Let_def)
     (simp add: song1_def song2_def store2_def)

lemma lesson_valid:
  "safeParse lesson = Some \<lparr>rq_content = ''Water evaporates, then it rains.'', rq_documentId = JUndefined,
                            rq_musicalStyle = ''traditional'', rq_complexity = ''simple''\<rparr>"
  by (simp add: safeParse_def lesson_def optional_string_def enum_default_def)

lemma la_generated:
  "generateSongWithAI JSON_parse_sample (completion_of ''La la la'') =
     Inr \<lparr>gen_title = JStr ''Untitled Song'', gen_topic = JStr ''General'', gen_lyrics = JStr ''La la la'',
          gen_rhythmPattern = JStr [], gen_culturalNotes = JStr []\<rparr>"
  by (simp add: generateSongWithAI_def generate_try_def completion_of_def response_text_def trim_def
      is_space_def JSON_parse_sample_def placeholder_def get_prop_def nullish_def js_or_def)

lemma job1_submitted: "generateMusicWithSuno (submitted ''job-1'') = Inr (JStr ''job-1'')"
  by (simp add: generateMusicWithSuno_def submitted_def get_prop_def nullish_def)

section \<open>Resolution: the webhook and the poll\<close>

text \<open>
  C1, as stated. Delivering the same completion webhook twice leaves the song's
  \<open>audioUrl\<close> as after one delivery, and more generally at most one non-null assignment
  ever takes effect for a song's \<open>audioUrl\<close>. The second half fails: \<open>updateSong\<close>
  overwrites without looking, so a second completion webhook for the same job that carries
  another URL replaces the URL the first one stored.
\<close>

theorem resolution_repeated_counterexample:
  "fst (suno_callback store1 (completion_webhook (JStr ''job-1'') (JStr ''https://cdn.example/a.mp3'')))
     = [(''s1'', song1\<lparr>audioUrl := JStr ''https://cdn.example/a.mp3''\<rparr>)] \<and>
   fst (suno_callback [(''s1'', song1\<lparr>audioUrl := JStr ''https://cdn.example/a.mp3''\<rparr>)]
          (completion_webhook (JStr ''job-1'') (JStr ''https://cdn.example/b.mp3'')))
     = [(''s1'', song1\<lparr>audioUrl := JStr ''https://cdn.example/b.mp3''\<rparr>)] \<and>
   JStr ''https://cdn.example/b.mp3'' \<noteq> JStr ''https://cdn.example/a.mp3''"
  by (simp add: suno_callback_def callback_try_def completion_webhook_def destructure_data_def
      get_prop_def nullish_def getSongs_def store1_def song1_def index0_def opt_prop_def
      updateSong_audioUrl template_literal_def Let_def)

text \<open>
  C1, amended. Delivering the same webhook twice leaves the store as delivering it once
  does, whatever the store and the payload. Once a poll has answered success with a URL,
  every further poll of that song answers success with the same URL, queries the provider
  no more and leaves the store unchanged. Every webhook that the handler takes as a
  completion (\<^verbatim>\<open>callbackType\<close> is \<^verbatim>\<open>complete\<close> and the first element of \<^verbatim>\<open>data\<close>
  carries a URL) and whose job id matches a stored song sets that song's \<open>audioUrl\<close> to
  the URL of the payload, whatever it held before (the last write wins), and is
  acknowledged with \<^verbatim>\<open>{received: true}\<close> when the URL is a value that can be printed
  in the log line, as every string is.
\<close>

theorem resolution_repeated:
  "fst (suno_callback (fst (suno_callback st b)) b) = fst (suno_callback st b) \<and>
   (answer (song_audio details st ident) = success u \<longrightarrow>
      song_audio details' (new_store (song_audio details st ident)) ident =
        \<lparr>new_store = new_store (song_audio details st ident), answer = success u,
         provider_calls = []\<rparr>) \<and>
   (destructure_data w = Inr data \<and> get_prop data ''task_id'' = Inr t \<and>
    own data ''callbackType'' = JStr ''complete'' \<and> truthy (own data ''data'') \<and>
    opt_prop (own0 (own data ''data'')) ''audio_url'' = url \<and> truthy url \<and>
    find (\<lambda>x. strict_eq (sunoJobId x) t) (getSongs st) = Some sng \<and>
    getSong st (song_id sng) = Some s \<longrightarrow>
      fst (suno_callback st w) = AList.update (song_id sng) (s\<lparr>audioUrl := url\<rparr>) st \<and>
      (printable url \<longrightarrow> snd (suno_callback st w) = received))"
proof (intro conjI impI)
  show "fst (suno_callback (fst (suno_callback st b)) b) = fst (suno_callback st b)"
    by (rule suno_callback_twice)
next
  assume "answer (song_audio details st ident) = success u"
  then show "song_audio details' (new_store (song_audio details st ident)) ident =
        \<lparr>new_store = new_store (song_audio details st ident), answer = success u,
         provider_calls = []\<rparr>"
    by (rule song_audio_after_success)
next
  assume a: "destructure_data w = Inr data \<and> get_prop data ''task_id'' = Inr t \<and>
    own data ''callbackType'' = JStr ''complete'' \<and> truthy (own data ''data'') \<and>
    opt_prop (own0 (own data ''data'')) ''audio_url'' = url \<and> truthy url \<and>
    find (\<lambda>x. strict_eq (sunoJobId x) t) (getSongs st) = Some sng \<and>
    getSong st (song_id sng) = Some s"
  then have c: "suno_callback st w =
           (AList.update (song_id sng) (s\<lparr>audioUrl := url\<rparr>) st,
            if printable url then received else Reply 500 (message ''Failed to process callback''))"
    using callback_overwrites [of w data t url st sng s] by blast
  from c show "fst (suno_callback st w) = AList.update (song_id sng) (s\<lparr>audioUrl := url\<rparr>) st"
    by simp
  assume "printable url"
  with c show "snd (suno_callback st w) = received" by simp
qed

theorem resolution_repeated_witness:
  "fst (suno_callback resolved1 (completion_webhook (JStr ''job-1'') (JStr ''https://cdn.example/a.mp3'')))
     = resolved1 \<and>
   song_audio provider_down resolved1 ''s1'' =
     \<lparr>new_store = resolved1, answer = success (JStr ''https://cdn.example/a.mp3''),
      provider_calls = []\<rparr> \<and>
   fst (suno_callback resolved1 provider_webhook) =
     [(''s1'', song1\<lparr>audioUrl := JStr ''https://cdn.example/b.mp3''\<rparr>)] \<and>
   snd (suno_callback resolved1 provider_webhook) = received"
proof -
  let ?a = "completion_webhook (JStr ''job-1'') (JStr ''https://cdn.example/a.mp3'')"
  let ?says = "provider_says (status_response (JStr ''https://cdn.example/a.mp3'') (JStr ''complete''))"
  let ?s = "song1\<lparr>audioUrl := JStr ''https://cdn.example/a.mp3''\<rparr>"
  let ?tracks = "JArr [JObj [(''id'', JStr ''t1''), (''audio_url'', JStr ''https://cdn.example/b.mp3''),
                             (''duration'', JNum (Finite 198))],
                       JObj [(''id'', JStr ''t2''), (''audio_url'', JStr ''https://cdn.example/c.mp3'')]]"
  let ?data = "JObj [(''callbackType'', JStr ''complete''), (''task_id'', JStr ''job-1''),
                     (''data'', ?tracks)]"
  have first: "fst (suno_callback store1 ?a) = resolved1"
    by (simp add: store1_resolved resolved1_def)
  have g: "getSong store1 ''s1'' = Some song1" by (simp add: getSong_def store1_def)
  have a: "audioUrl song1 = JNull" by (simp add: song1_def)
  have j: "truthy (sunoJobId song1)" by (simp add: song1_def)
  have "?says (sunoJobId song1) = Inr (status_response (JStr ''https://cdn.example/a.mp3'') (JStr ''complete''))"
    by (simp add: provider_says_def)
  from song_audio_pending [of store1 "''s1''" song1 ?says, OF g a j this]
  have poll: "song_audio ?says store1 ''s1'' =
      \<lparr>new_store = resolved1, answer = success (JStr ''https://cdn.example/a.mp3''),
       provider_calls = [sunoJobId song1]\<rparr>"
    by (simp add: resolve_poll_shape store1_def resolved1_def)
  have d: "destructure_data provider_webhook = Inr ?data"
    by (simp add: destructure_data_def provider_webhook_def nullish_def)
  have t: "get_prop ?data ''task_id'' = Inr (JStr ''job-1'')"
    by (simp add: get_prop_def nullish_def)
  have ct: "own ?data ''callbackType'' = JStr ''complete''" by simp
  have dd: "truthy (own ?data ''data'')" by simp
  have url: "opt_prop (own0 (own ?data ''data'')) ''audio_url'' = JStr ''https://cdn.example/b.mp3''"
    by (simp add: opt_prop_def nullish_def)
  have tr: "truthy (JStr ''https://cdn.example/b.mp3'')" by simp
  have pr: "printable (JStr ''https://cdn.example/b.mp3'')" by simp
  have f: "find (\<lambda>x. strict_eq (sunoJobId x) (JStr ''job-1'')) (getSongs resolved1) = Some ?s"
    by (simp add: getSongs_def resolved1_def song1_def)
  have g': "getSong resolved1 (song_id ?s) = Some ?s"
    by (simp add: getSong_def resolved1_def song1_def)
  have u: "AList.update (song_id ?s) (?s\<lparr>audioUrl := JStr ''https://cdn.example/b.mp3''\<rparr>) resolved1
           = [(''s1'', song1\<lparr>audioUrl := JStr ''https://cdn.example/b.mp3''\<rparr>)]"
    by (simp add: resolved1_def song1_def)
  from resolution_repeated [of store1 ?a ?says "''s1''" "JStr ''https://cdn.example/a.mp3''" provider_down]
  have c12: "fst (suno_callback resolved1 ?a) = resolved1 \<and>
    song_audio provider_down resolved1 ''s1'' =
          \<lparr>new_store = resolved1, answer = success (JStr ''https://cdn.example/a.mp3''),
           provider_calls = []\<rparr>"
    by (simp add: first poll)
  note r2 = resolution_repeated [of resolved1 ?a ?says "''s1''" "JStr ''https://cdn.example/a.mp3''" provider_down
      provider_webhook ?data "JStr ''job-1''" "JStr ''https://cdn.example/b.mp3''" ?s ?s]
  note c3 = r2 [THEN conjunct2, THEN conjunct2, THEN mp,
      OF conjI [OF d conjI [OF t conjI [OF ct conjI [OF dd conjI [OF url conjI [OF tr conjI [OF f g']]]]]]]]
  from c3 [THEN conjunct1]
  have s3: "fst (suno_callback resolved1 provider_webhook) =
     [(''s1'', song1\<lparr>audioUrl := JStr ''https://cdn.example/b.mp3''\<rparr>)]"
    by (simp only: u)
  from c3 [THEN conjunct2, THEN mp, OF pr]
  have r3: "snd (suno_callback resolved1 provider_webhook) = received" .
  from c12 s3 r3 show ?thesis by blast
qed

text \<open>
  C2. For every song with a stored job id and a null \<open>audioUrl\<close>, when the status
  query returns \<^verbatim>\<open>{data: {data: [{audio_url: x}], callbackType: "complete"}}\<close> the poll
  stores \<open>x\<close> as the song's \<open>audioUrl\<close> and answers
  \<^verbatim>\<open>{status: "success", audioUrl: x}\<close>; with any other \<^verbatim>\<open>callbackType\<close>, or with no
  normalised URL, it answers \<^verbatim>\<open>{status: "running"}\<close> and stores nothing. The URL is
  looked for in the first element of a sequence field, then in a bare object field, then
  at the top level: for every response the provider can return, the endpoint answers
  success exactly when the task data is marked complete and \<open>spec_audio_url\<close> finds a
  URL in these places in this order, and then stores and returns that URL; otherwise, also
  on an empty response, it answers running. A job id and a URL are present when JavaScript
  takes them as true, which is the handler's own test.
\<close>

theorem poll_normalization:
  assumes "getSong st ident = Some s" and "audioUrl s = JNull" and "truthy (sunoJobId s)"
  shows
    "(details (sunoJobId s) = Inr (status_response x (JStr ''complete'')) \<and> truthy x \<longrightarrow>
        song_audio details st ident =
          \<lparr>new_store = AList.update ident (s\<lparr>audioUrl := x\<rparr>) st, answer = success x,
           provider_calls = [sunoJobId s]\<rparr> \<and>
        getSong (AList.update ident (s\<lparr>audioUrl := x\<rparr>) st) ident = Some (s\<lparr>audioUrl := x\<rparr>)) \<and>
     (details (sunoJobId s) = Inr (status_response x ct) \<and> ct \<noteq> JStr ''complete'' \<longrightarrow>
        song_audio details st ident =
          \<lparr>new_store = st, answer = running, provider_calls = [sunoJobId s]\<rparr>) \<and>
     (details (sunoJobId s) = Inr r \<and> unwrap_task r = Inr t \<and> normalize_audio_url t = Inr JNull \<longrightarrow>
        song_audio details st ident =
          \<lparr>new_store = st, answer = running, provider_calls = [sunoJobId s]\<rparr>) \<and>
     (map_of kvs ''data'' = Some (JArr (f # fs)) \<and> truthy (opt_prop f ''audio_url'') \<longrightarrow>
        normalize_audio_url (JObj kvs) = Inr (own f ''audio_url'')) \<and>
     (map_of kvs ''data'' = Some (JObj ob) \<and> map_of ob ''audio_url'' = Some u \<and> truthy u \<longrightarrow>
        normalize_audio_url (JObj kvs) = Inr u) \<and>
     (\<not> nullish t \<and>
      \<not> (isArray (own t ''data'') \<and> truthy (opt_prop (own0 (own t ''data'')) ''audio_url'')) \<and>
      \<not> truthy (opt_prop (own t ''data'') ''audio_url'') \<longrightarrow>
        normalize_audio_url t = Inr (if truthy (own t ''audio_url'') then own t ''audio_url'' else JNull)) \<and>
     (details (sunoJobId s) = Inr q \<and> \<not> nullish q \<longrightarrow>
        song_audio details st ident =
          (let taskData = js_or (own q ''data'') q; found = spec_audio_url taskData
           in if own taskData ''callbackType'' = JStr ''complete'' \<and> truthy found
              then \<lparr>new_store = AList.update ident (s\<lparr>audioUrl := found\<rparr>) st,
                    answer = success found, provider_calls = [sunoJobId s]\<rparr>
              else \<lparr>new_store = st, answer = running, provider_calls = [sunoJobId s]\<rparr>)) \<and>
     (details (sunoJobId s) = Inr q \<and> nullish q \<longrightarrow>
        song_audio details st ident =
          \<lparr>new_store = st, answer = running, provider_calls = [sunoJobId s]\<rparr>) \<and>
     (\<not> nullish td \<longrightarrow> normalize_audio_url td = Inr (spec_audio_url td))"
proof (intro conjI impI)
  assume a: "details (sunoJobId s) = Inr (status_response x (JStr ''complete'')) \<and> truthy x"
  then show "song_audio details st ident =
          \<lparr>new_store = AList.update ident (s\<lparr>audioUrl := x\<rparr>) st, answer = success x,
           provider_calls = [sunoJobId s]\<rparr>"
    using song_audio_pending [OF assms, of details] by (simp add: resolve_poll_shape)
  show "getSong (AList.update ident (s\<lparr>audioUrl := x\<rparr>) st) ident = Some (s\<lparr>audioUrl := x\<rparr>)"
    by (simp add: getSong_def update_conv')
next
  assume "details (sunoJobId s) = Inr (status_response x ct) \<and> ct \<noteq> JStr ''complete''"
  then show "song_audio details st ident =
          \<lparr>new_store = st, answer = running, provider_calls = [sunoJobId s]\<rparr>"
    using song_audio_pending [OF assms, of details] by (simp add: resolve_poll_shape)
next
  assume a: "details (sunoJobId s) = Inr r \<and> unwrap_task r = Inr t \<and> normalize_audio_url t = Inr JNull"
  with resolve_poll_no_url [of r t] have "resolve_poll r = Inr None \<or> (\<exists>e. resolve_poll r = Inl e)"
    by simp
  with a show "song_audio details st ident =
          \<lparr>new_store = st, answer = running, provider_calls = [sunoJobId s]\<rparr>"
    using song_audio_pending [OF assms, of details r] by auto
next
  assume "map_of kvs ''data'' = Some (JArr (f # fs)) \<and> truthy (opt_prop f ''audio_url'')"
  then show "normalize_audio_url (JObj kvs) = Inr (own f ''audio_url'')"
    by (simp add: normalize_sequence)
next
  assume "map_of kvs ''data'' = Some (JObj ob) \<and> map_of ob ''audio_url'' = Some u \<and> truthy u"
  then show "normalize_audio_url (JObj kvs) = Inr u"
    by (simp add: normalize_object)
next
  assume "\<not> nullish t \<and>
      \<not> (isArray (own t ''data'') \<and> truthy (opt_prop (own0 (own t ''data'')) ''audio_url'')) \<and>
      \<not> truthy (opt_prop (own t ''data'') ''audio_url'')"
  then show "normalize_audio_url t = Inr (if truthy (own t ''audio_url'') then own t ''audio_url'' else JNull)"
    using normalize_top_level [of t] by blast
next
  assume a: "details (sunoJobId s) = Inr q \<and> \<not> nullish q"
  then have "resolve_poll q =
     Inr (if own (js_or (own q ''data'') q) ''callbackType'' = JStr ''complete'' \<and>
             truthy (spec_audio_url (js_or (own q ''data'') q))
          then Some (spec_audio_url (js_or (own q ''data'') q)) else None)"
    by (simp add: resolve_poll_general)
  with a song_audio_pending [OF assms, of details q]
  show "song_audio details st ident =
          (let taskData = js_or (own q ''data'') q; found = spec_audio_url taskData
           in if own taskData ''callbackType'' = JStr ''complete'' \<and> truthy found
              then \<lparr>new_store = AList.update ident (s\<lparr>audioUrl := found\<rparr>) st,
                    answer = success found, provider_calls = [sunoJobId s]\<rparr>
              else \<lparr>new_store = st, answer = running, provider_calls = [sunoJobId s]\<rparr>)"
    by (simp add: Let_def)
next
  assume a: "details (sunoJobId s) = Inr q \<and> nullish q"
  with resolve_poll_nullish [of q] obtain e where "resolve_poll q = Inl e" by blast
  with a song_audio_pending [OF assms, of details q]
  show "song_audio details st ident =
          \<lparr>new_store = st, answer = running, provider_calls = [sunoJobId s]\<rparr>"
    by simp
next
  assume "\<not> nullish td"
  then show "normalize_audio_url td = Inr (spec_audio_url td)"
    by (rule normalize_is_spec_audio_url)
qed

theorem poll_normalization_witness:
  "song_audio (provider_says (status_response (JStr ''https://cdn.example/a.mp3'') (JStr ''complete''))) store1 ''s1''
     = \<lparr>new_store = resolved1, answer = success (JStr ''https://cdn.example/a.mp3''),
        provider_calls = [JStr ''job-1'']\<rparr> \<and>
   song_audio (provider_says (status_response (JStr ''https://cdn.example/a.mp3'') (JStr ''text''))) store1 ''s1''
     = \<lparr>new_store = store1, answer = running, provider_calls = [JStr ''job-1'']\<rparr> \<and>
   song_audio (provider_says (JObj [(''callbackType'', JStr ''complete'')])) store1 ''s1''
     = \<lparr>new_store = store1, answer = running, provider_calls = [JStr ''job-1'']\<rparr> \<and>
   normalize_audio_url (JObj [(''data'', JArr [JObj [(''audio_url'', JStr ''a'')]]), (''audio_url'', JStr ''c'')])
     = Inr (JStr ''a'') \<and>
   normalize_audio_url (JObj [(''data'', JObj [(''audio_url'', JStr ''b'')]), (''audio_url'', JStr ''c'')])
     = Inr (JStr ''b'') \<and>
   normalize_audio_url (JObj [(''data'', JArr [JObj []]), (''audio_url'', JStr ''c'')])
     = Inr (JStr ''c'') \<and>
   song_audio (provider_says status_sequence) store1 ''s1''
     = \<lparr>new_store = resolved1, answer = success (JStr ''https://cdn.example/a.mp3''),
        provider_calls = [JStr ''job-1'']\<rparr> \<and>
   song_audio (provider_says status_object) store1 ''s1''
     = \<lparr>new_store = resolved1, answer = success (JStr ''https://cdn.example/a.mp3''),
        provider_calls = [JStr ''job-1'']\<rparr> \<and>
   song_audio (provider_says status_top_level) store1 ''s1''
     = \<lparr>new_store = resolved1, answer = success (JStr ''https://cdn.example/a.mp3''),
        provider_calls = [JStr ''job-1'']\<rparr> \<and>
   song_audio (provider_says JNull) store1 ''s1''
     = \<lparr>new_store = store1, answer = running, provider_calls = [JStr ''job-1'']\<rparr> \<and>
   normalize_audio_url
       (JObj [(''callbackType'', JStr ''complete''), (''audio_url'', JStr ''https://cdn.example/a.mp3''),
              (''data'', JArr [JObj [(''id'', JStr ''t1'')]])])
     = Inr (JStr ''https://cdn.example/a.mp3'')"
proof -
  let ?inner = "JObj [(''callbackType'', JStr ''complete''), (''audio_url'', JStr ''https://cdn.example/a.mp3''),
                      (''data'', JArr [JObj [(''id'', JStr ''t1'')]])]"
  have g: "getSong store1 ''s1'' = Some song1" by (simp add: getSong_def store1_def)
  have a: "audioUrl song1 = JNull" by (simp add: song1_def)
  have j: "truthy (sunoJobId song1)" by (simp add: song1_def)
  have job: "sunoJobId song1 = JStr ''job-1''" by (simp add: song1_def)
  have upd: "AList.update ''s1'' (song1\<lparr>audioUrl := JStr ''https://cdn.example/a.mp3''\<rparr>) store1 = resolved1"
    by (simp add: store1_def resolved1_def)
  let ?top = "JObj [(''data'', JArr [JObj []]), (''audio_url'', JStr ''c'')]"
  let ?bare = "JObj [(''callbackType'', JStr ''complete'')]"
  have u: "unwrap_task ?bare = Inr ?bare"
    by (simp add: unwrap_task_def get_prop_def nullish_def js_or_def)
  have n: "normalize_audio_url ?bare = Inr JNull"
    by (simp add: normalize_audio_url_def get_prop_def nullish_def opt_prop_def)
  note t1 = poll_normalization [OF g a j,
      where details = "provider_says (status_response (JStr ''https://cdn.example/a.mp3'') (JStr ''complete''))"
        and x = "JStr ''https://cdn.example/a.mp3''" and ct = "JStr ''complete''" and r = ?bare and t = ?bare
        and kvs = "[(''data'', JArr [JObj [(''audio_url'', JStr ''a'')]]), (''audio_url'', JStr ''c'')]"
        and f = "JObj [(''audio_url'', JStr ''a'')]" and fs = "[]" and ob = "[]" and u = JNull
        and q = JNull and td = ?inner]
  note t2 = poll_normalization [OF g a j,
      where details = "provider_says (status_response (JStr ''https://cdn.example/a.mp3'') (JStr ''text''))"
        and x = "JStr ''https://cdn.example/a.mp3''" and ct = "JStr ''text''" and r = ?bare and t = ?top
        and kvs = "[(''data'', JObj [(''audio_url'', JStr ''b'')]), (''audio_url'', JStr ''c'')]"
        and f = JNull and fs = "[]" and ob = "[(''audio_url'', JStr ''b'')]" and u = "JStr ''b''"
        and q = JNull and td = ?inner]
  note t3 = poll_normalization [OF g a j,
      where details = "provider_says ?bare" and x = JNull and ct = JNull and r = ?bare and t = ?bare
        and kvs = "[]" and f = JNull and fs = "[]" and ob = "[]" and u = JNull
        and q = JNull and td = ?inner]
  note general = poll_normalization [OF g a j, where x = JNull and ct = JNull and r = JNull and t = JNull
        and kvs = "[]" and f = JNull and fs = "[]" and ob = "[]" and u = JNull and td = ?inner]
  from t1 have c1: "song_audio (provider_says (status_response (JStr ''https://cdn.example/a.mp3'') (JStr ''complete''))) store1 ''s1''
     = \<lparr>new_store = resolved1, answer = success (JStr ''https://cdn.example/a.mp3''),
        provider_calls = [JStr ''job-1'']\<rparr>"
    by (simp add: provider_says_def upd job)
  from t1 have c4: "normalize_audio_url (JObj [(''data'', JArr [JObj [(''audio_url'', JStr ''a'')]]), (''audio_url'', JStr ''c'')])
     = Inr (JStr ''a'')"
    by (simp add: opt_prop_def nullish_def)
  from t2 have c2: "song_audio (provider_says (status_response (JStr ''https://cdn.example/a.mp3'') (JStr ''text''))) store1 ''s1''
     = \<lparr>new_store = store1, answer = running, provider_calls = [JStr ''job-1'']\<rparr>"
    by (simp add: provider_says_def job)
  from t2 have c5: "normalize_audio_url (JObj [(''data'', JObj [(''audio_url'', JStr ''b'')]), (''audio_url'', JStr ''c'')])
     = Inr (JStr ''b'')"
    by simp
  from t2 have c6: "normalize_audio_url ?top = Inr (JStr ''c'')"
    by (simp add: opt_prop_def nullish_def)
  from t3 u n have c3: "song_audio (provider_says ?bare) store1 ''s1''
     = \<lparr>new_store = store1, answer = running, provider_calls = [JStr ''job-1'']\<rparr>"
    by (simp add: provider_says_def job)
  have s1: "js_or (own status_sequence ''data'') status_sequence =
      JObj [(''taskId'', JStr ''job-1''), (''callbackType'', JStr ''complete''),
            (''data'',
             JArr [JObj [(''id'', JStr ''t1''), (''audio_url'', JStr ''https://cdn.example/a.mp3'')],
                   JObj [(''id'', JStr ''t2''), (''audio_url'', JStr ''https://cdn.example/c.mp3'')]]),
            (''audio_url'', JStr ''https://cdn.example/top.mp3'')]"
    by (simp add: status_sequence_def js_or_def)
  have s2: "js_or (own status_object ''data'') status_object =
      JObj [(''callbackType'', JStr ''complete''),
            (''data'', JObj [(''id'', JStr ''t1''), (''audio_url'', JStr ''https://cdn.example/a.mp3'')]),
            (''audio_url'', JStr ''https://cdn.example/top.mp3'')]"
    by (simp add: status_object_def js_or_def)
  have s3: "js_or (own status_top_level ''data'') status_top_level = ?inner"
    by (simp add: status_top_level_def js_or_def)
  have nn: "\<not> nullish status_sequence" "\<not> nullish status_object" "\<not> nullish status_top_level"
    "nullish JNull"
    by (simp_all add: nullish_def status_sequence_def status_object_def status_top_level_def)
  have "provider_says status_sequence (sunoJobId song1) = Inr status_sequence" by (simp add: provider_says_def)
  from general [where details = "provider_says status_sequence" and q = status_sequence,
      THEN conjunct2, THEN conjunct2, THEN conjunct2, THEN conjunct2, THEN conjunct2, THEN conjunct2,
      THEN conjunct1, THEN mp, OF conjI [OF this nn(1)]]
  have c7: "song_audio (provider_says status_sequence) store1 ''s1''
     = \<lparr>new_store = resolved1, answer = success (JStr ''https://cdn.example/a.mp3''),
        provider_calls = [JStr ''job-1'']\<rparr>"
    by (simp add: s1 spec_audio_url_def spec_audio_url_places_def opt_prop_def
        nullish_def Let_def upd job)
  have "provider_says status_object (sunoJobId song1) = Inr status_object" by (simp add: provider_says_def)
  from general [where details = "provider_says status_object" and q = status_object,
      THEN conjunct2, THEN conjunct2, THEN conjunct2, THEN conjunct2, THEN conjunct2, THEN conjunct2,
      THEN conjunct1, THEN mp, OF conjI [OF this nn(2)]]
  have c8: "song_audio (provider_says status_object) store1 ''s1''
     = \<lparr>new_store = resolved1, answer = success (JStr ''https://cdn.example/a.mp3''),
        provider_calls = [JStr ''job-1'']\<rparr>"
    by (simp add: s2 spec_audio_url_def spec_audio_url_places_def opt_prop_def
        nullish_def Let_def upd job)
  have "provider_says status_top_level (sunoJobId song1) = Inr status_top_level" by (simp add: provider_says_def)
  from general [where details = "provider_says status_top_level" and q = status_top_level,
      THEN conjunct2, THEN conjunct2, THEN conjunct2, THEN conjunct2, THEN conjunct2, THEN conjunct2,
      THEN conjunct1, THEN mp, OF conjI [OF this nn(3)]]
  have c9: "song_audio (provider_says status_top_level) store1 ''s1''
     = \<lparr>new_store = resolved1, answer = success (JStr ''https://cdn.example/a.mp3''),
        provider_calls = [JStr ''job-1'']\<rparr>"
    by (simp add: s3 spec_audio_url_def spec_audio_url_places_def opt_prop_def
        nullish_def Let_def upd job)
  have "provider_says JNull (sunoJobId song1) = Inr JNull" by (simp add: provider_says_def)
  from general [where details = "provider_says JNull" and q = JNull,
      THEN conjunct2, THEN conjunct2, THEN conjunct2, THEN conjunct2, THEN conjunct2, THEN conjunct2,
      THEN conjunct2, THEN conjunct1, THEN mp, OF conjI [OF this nn(4)]]
  have c10: "song_audio (provider_says JNull) store1 ''s1''
     = \<lparr>new_store = store1, answer = running, provider_calls = [JStr ''job-1'']\<rparr>"
    by (simp add: job)
  have "\<not> nullish ?inner" by (simp add: nullish_def)
  from t1 [THEN conjunct2, THEN conjunct2, THEN conjunct2, THEN conjunct2, THEN conjunct2, THEN conjunct2,
      THEN conjunct2, THEN conjunct2, THEN mp, OF this]
  have c11: "normalize_audio_url ?inner = Inr (JStr ''https://cdn.example/a.mp3'')"
    by (simp add: spec_audio_url_def spec_audio_url_places_def opt_prop_def nullish_def)
  from c1 c2 c3 c4 c5 c6 c7 c8 c9 c10 c11 show ?thesis by blast
qed

text \<open>
  C3, as stated. A webhook whose job id matches no stored song is acknowledged with a
  success response. It is not: the handler answers with status 404.
\<close>

theorem callback_unknown_job_counterexample:
  "suno_callback store1 (completion_webhook (JStr ''job-9'') (JStr ''https://cdn.example/a.mp3''))
     = (store1, Reply 404 (message ''Song not found'')) \<and>
   \<not> is_success (Reply 404 (message ''Song not found''))"
  by (simp add: suno_callback_def callback_try_def completion_webhook_def destructure_data_def
      get_prop_def nullish_def getSongs_def store1_def song1_def is_success_def template_literal_def)

text \<open>
  C3, amended. For every webhook delivery whose payload carries a job id that matches no
  stored song's job id, no song record is changed and the endpoint answers with an error
  status, never with a success response: 404 with the message \<^verbatim>\<open>Song not found\<close>
  whenever the job id is a value that can be printed in the log line, as every string and
  number is.
\<close>

theorem callback_unknown_job_not_found:
  assumes "destructure_data b = Inr data" and "get_prop data ''task_id'' = Inr t"
    and "\<forall>s \<in> snd ` set st. \<not> strict_eq (sunoJobId s) t"
  shows "fst (suno_callback st b) = st \<and> \<not> is_success (snd (suno_callback st b)) \<and>
         (printable t \<longrightarrow> suno_callback st b = (st, Reply 404 (message ''Song not found'')))"
  using callback_not_found [OF assms] by (simp add: is_success_def)

theorem callback_unknown_job_not_found_witness:
  "suno_callback store2 (completion_webhook (JStr ''job-9'') (JStr ''https://cdn.example/a.mp3''))
     = (store2, Reply 404 (message ''Song not found'')) \<and>
   fst (suno_callback store2
          (completion_webhook (JObj [(''toString'', JNum (Finite 1))]) (JStr ''https://cdn.example/a.mp3'')))
     = store2 \<and>
   \<not> is_success (snd (suno_callback store2
          (completion_webhook (JObj [(''toString'', JNum (Finite 1))]) (JStr ''https://cdn.example/a.mp3''))))"
proof -
  have t: "get_prop (JObj [(''task_id'', x), (''callbackType'', JStr ''complete''),
                     (''data'', JArr [JObj [(''audio_url'', JStr ''https://cdn.example/a.mp3'')]])]) ''task_id''
           = Inr x" for x
    by (simp add: get_prop_def nullish_def)
  have n: "\<forall>s \<in> snd ` set store2. \<not> strict_eq (sunoJobId s) (JStr ''job-9'')"
    by (simp add: store2_def song1_def song2_def)
  have n': "\<forall>s \<in> snd ` set store2. \<not> strict_eq (sunoJobId s) (JObj [(''toString'', JNum (Finite 1))])"
    by (simp add: store2_def song1_def song2_def)
  have p: "printable (JStr ''job-9'')" by simp
  from callback_unknown_job_not_found [OF completion_webhook_parts t n, THEN conjunct2, THEN conjunct2,
      THEN mp, OF p]
  have c1: "suno_callback store2 (completion_webhook (JStr ''job-9'') (JStr ''https://cdn.example/a.mp3''))
     = (store2, Reply 404 (message ''Song not found''))" .
  from callback_unknown_job_not_found [OF completion_webhook_parts t n']
  have c2: "fst (suno_callback store2
          (completion_webhook (JObj [(''toString'', JNum (Finite 1))]) (JStr ''https://cdn.example/a.mp3'')))
     = store2 \<and>
   \<not> is_success (snd (suno_callback store2
          (completion_webhook (JObj [(''toString'', JNum (Finite 1))]) (JStr ''https://cdn.example/a.mp3''))))"
    by blast
  from c1 c2 show ?thesis by blast
qed

section \<open>Creation and the lyrics generator\<close>

text \<open>
  C4, as stated. Every created song has a null \<open>audioUrl\<close> and a non-null job id, or
  the creation fails and persists nothing. \<^verbatim>\<open>POST /api/songs\<close> creates a song without
  submitting a job: the song is persisted with a null job id. So does
  \<^verbatim>\<open>POST /api/songs/generate\<close> when the provider accepts the submission with an answer
  that carries no \<^verbatim>\<open>taskId\<close>.
\<close>

theorem creation_counterexample:
  "songs_save ''s2'' 2000 []
     (JObj [(''title'', JStr ''Rain''), (''topic'', JStr ''Weather''), (''lyrics'', JStr ''Drip drop'')])
   = ([(''s2'', saved_song)], Reply 201 (SongJson saved_song)) \<and> sunoJobId saved_song = JNull \<and>
   songs_generate JSON_parse_sample (completion_of ''La la la'') accepted_without_id ''s1'' 1000 [] lesson
   = ([(''s1'', song1\<lparr>sunoJobId := JNull\<rparr>)], Reply 201 (SongJson (song1\<lparr>sunoJobId := JNull\<rparr>))) \<and>
   sunoJobId (song1\<lparr>sunoJobId := JNull\<rparr>) = JNull"
proof -
  have "songs_save ''s2'' 2000 []
     (JObj [(''title'', JStr ''Rain''), (''topic'', JStr ''Weather''), (''lyrics'', JStr ''Drip drop'')])
   = ([(''s2'', saved_song)], Reply 201 (SongJson saved_song))"
    by (simp add: songs_save_def nullish_def createSong_def Let_def js_or_def js_coalesce_def saved_song_def)
  moreover have "sunoJobId saved_song = JNull" by (simp add: saved_song_def)
  moreover have "generateMusicWithSuno accepted_without_id = Inr JUndefined"
    by (simp add: generateMusicWithSuno_def accepted_without_id_def get_prop_def nullish_def)
  then have "songs_generate JSON_parse_sample (completion_of ''La la la'') accepted_without_id ''s1'' 1000 [] lesson
   = ([(''s1'', song1\<lparr>sunoJobId := JNull\<rparr>)], Reply 201 (SongJson (song1\<lparr>sunoJobId := JNull\<rparr>)))"
    by (simp add: songs_generate_def lesson_valid la_generated createSong_def Let_def js_or_def
        js_coalesce_def nullish_def song1_def)
  ultimately show ?thesis by simp
qed

text \<open>
  C4, amended. Every song a creation route persists has a null \<open>audioUrl\<close>.
  \<^verbatim>\<open>POST /api/songs/generate\<close> persists nothing and answers with an error status when the
  validation, the lyrics generation or the job submission fails; when they succeed it
  persists one song, whose job id is the \<^verbatim>\<open>taskId\<close> of the provider's answer, and null
  when the answer carries none. \<^verbatim>\<open>POST /api/songs\<close> submits no job: it persists a song
  with a null job id, or fails on a missing body and persists nothing.
\<close>

theorem creation_audioUrl_null:
  "(safeParse b = None \<or> (\<exists>e. generateSongWithAI P c = Inl e) \<or> (\<exists>e. generateMusicWithSuno f = Inl e) \<longrightarrow>
      fst (songs_generate P c f u n st b) = st \<and> \<not> is_success (snd (songs_generate P c f u n st b))) \<and>
   (safeParse b = Some rq \<and> generateSongWithAI P c = Inr g \<and> generateMusicWithSuno f = Inr job \<longrightarrow>
      (\<exists>s. songs_generate P c f u n st b = (AList.update u s st, Reply 201 (SongJson s)) \<and>
           song_id s = u \<and> audioUrl s = JNull \<and>
           sunoJobId s = (if nullish job then JNull else job))) \<and>
   (nullish b' \<longrightarrow> songs_save u n st b' = (st, Reply 500 (message ''Failed to save song''))) \<and>
   (\<not> nullish b' \<longrightarrow>
      (\<exists>s. songs_save u n st b' = (AList.update u s st, Reply 201 (SongJson s)) \<and>
           song_id s = u \<and> audioUrl s = JNull \<and> sunoJobId s = JNull))"
proof (intro conjI impI)
  assume "safeParse b = None \<or> (\<exists>e. generateSongWithAI P c = Inl e) \<or> (\<exists>e. generateMusicWithSuno f = Inl e)"
  from songs_generate_failed [OF this]
  show "fst (songs_generate P c f u n st b) = st" and "\<not> is_success (snd (songs_generate P c f u n st b))"
    by simp_all
next
  assume a: "safeParse b = Some rq \<and> generateSongWithAI P c = Inr g \<and> generateMusicWithSuno f = Inr job"
  have "js_coalesce job JNull = (if nullish job then JNull else job)" by (simp add: js_coalesce_def)
  with a songs_generate_created [of b rq P c g f job u n st]
  show "\<exists>s. songs_generate P c f u n st b = (AList.update u s st, Reply 201 (SongJson s)) \<and>
           song_id s = u \<and> audioUrl s = JNull \<and> sunoJobId s = (if nullish job then JNull else job)"
    by simp
next
  assume "nullish b'"
  then show "songs_save u n st b' = (st, Reply 500 (message ''Failed to save song''))"
    by (simp add: songs_save_def)
next
  assume "\<not> nullish b'"
  then show "\<exists>s. songs_save u n st b' = (AList.update u s st, Reply 201 (SongJson s)) \<and>
           song_id s = u \<and> audioUrl s = JNull \<and> sunoJobId s = JNull"
    by (rule songs_save_created)
qed

theorem creation_audioUrl_null_witness:
  "fst (songs_generate JSON_parse_sample (completion_of ''La la la'') (Inl (JsError ''fetch failed''))
          ''s1'' 1000 [] lesson) = [] \<and>
   \<not> is_success (snd (songs_generate JSON_parse_sample (completion_of ''La la la'')
                        (Inl (JsError ''fetch failed'')) ''s1'' 1000 [] lesson)) \<and>
   (\<exists>s. songs_generate JSON_parse_sample (completion_of ''La la la'') (submitted ''job-1'') ''s1'' 1000 [] lesson
          = (AList.update ''s1'' s [], Reply 201 (SongJson s)) \<and>
        song_id s = ''s1'' \<and> audioUrl s = JNull \<and> sunoJobId s = JStr ''job-1'') \<and>
   (\<exists>s. songs_generate JSON_parse_sample (completion_of ''La la la'') accepted_without_id ''s1'' 1000 [] lesson
          = (AList.update ''s1'' s [], Reply 201 (SongJson s)) \<and>
        song_id s = ''s1'' \<and> audioUrl s = JNull \<and> sunoJobId s = JNull) \<and>
   songs_save ''s2'' 2000 [] JNull = ([], Reply 500 (message ''Failed to save song'')) \<and>
   (\<exists>s. songs_save ''s2'' 2000 [] (JObj [(''title'', JStr ''Rain'')])
          = (AList.update ''s2'' s [], Reply 201 (SongJson s)) \<and>
        song_id s = ''s2'' \<and> audioUrl s = JNull \<and> sunoJobId s = JNull)"
proof -
  have down: "generateMusicWithSuno (Inl (JsError ''fetch failed'')) = Inl (JsError ''fetch failed'')"
    by (simp add: generateMusicWithSuno_def)
  have noid: "generateMusicWithSuno accepted_without_id = Inr JUndefined"
    by (simp add: generateMusicWithSuno_def accepted_without_id_def get_prop_def nullish_def)
  have n1: "nullish JNull" and n2: "\<not> nullish (JObj [(''title'', JStr ''Rain'')])"
    by (simp_all add: nullish_def)
  note failing = creation_audioUrl_null [of lesson JSON_parse_sample "completion_of ''La la la''"
      "Inl (JsError ''fetch failed'')" "''s1''" 1000 "[]" _ _ _ JNull]
  note working = creation_audioUrl_null [of lesson JSON_parse_sample "completion_of ''La la la''"
      "submitted ''job-1''" "''s1''" 1000 "[]" _ _ "JStr ''job-1''" "JObj [(''title'', JStr ''Rain'')]"]
  note unnamed = creation_audioUrl_null [of lesson JSON_parse_sample "completion_of ''La la la''"
      accepted_without_id "''s1''" 1000 "[]" _ _ JUndefined JNull]
  from failing [THEN conjunct1] down
  have c1: "fst (songs_generate JSON_parse_sample (completion_of ''La la la'') (Inl (JsError ''fetch failed''))
          ''s1'' 1000 [] lesson) = [] \<and>
   \<not> is_success (snd (songs_generate JSON_parse_sample (completion_of ''La la la'')
                        (Inl (JsError ''fetch failed'')) ''s1'' 1000 [] lesson))"
    by simp
  from working [THEN conjunct2, THEN conjunct1, THEN mp,
      OF conjI [OF lesson_valid conjI [OF la_generated job1_submitted]]]
  have c2: "\<exists>s. songs_generate JSON_parse_sample (completion_of ''La la la'') (submitted ''job-1'') ''s1'' 1000 [] lesson
          = (AList.update ''s1'' s [], Reply 201 (SongJson s)) \<and>
        song_id s = ''s1'' \<and> audioUrl s = JNull \<and> sunoJobId s = JStr ''job-1''"
    by (simp add: nullish_def)
  from unnamed [THEN conjunct2, THEN conjunct1, THEN mp,
      OF conjI [OF lesson_valid conjI [OF la_generated noid]]]
  have c2': "\<exists>s. songs_generate JSON_parse_sample (completion_of ''La la la'') accepted_without_id ''s1'' 1000 [] lesson
          = (AList.update ''s1'' s [], Reply 201 (SongJson s)) \<and>
        song_id s = ''s1'' \<and> audioUrl s = JNull \<and> sunoJobId s = JNull"
    by (simp add: nullish_def)
  from creation_audioUrl_null [of lesson JSON_parse_sample "completion_of ''La la la''"
      "submitted ''job-1''" "''s2''" 2000 "[]" _ _ _ JNull,
      THEN conjunct2, THEN conjunct2, THEN conjunct1, THEN mp, OF n1]
  have c3: "songs_save ''s2'' 2000 [] JNull = ([], Reply 500 (message ''Failed to save song''))" .
  from creation_audioUrl_null [of lesson JSON_parse_sample "completion_of ''La la la''"
      "submitted ''job-1''" "''s2''" 2000 "[]" _ _ _ "JObj [(''title'', JStr ''Rain'')]",
      THEN conjunct2, THEN conjunct2, THEN conjunct2, THEN mp, OF n2]
  have c4: "\<exists>s. songs_save ''s2'' 2000 [] (JObj [(''title'', JStr ''Rain'')])
          = (AList.update ''s2'' s [], Reply 201 (SongJson s)) \<and>
        song_id s = ''s2'' \<and> audioUrl s = JNull \<and> sunoJobId s = JNull" .
  from c1 c2 c2' c3 c4 show ?thesis by blast
qed

text \<open>
  C5, as stated. Every non-empty response that is not JSON gives lyrics equal to the raw
  text, and in a parsed object present fields are kept. Both fail: a response of white
  space only is not JSON and gives empty lyrics, and a field that is present with the
  empty string gets the default.
\<close>

theorem lyrics_fallback_counterexample:
  \<open>JSON_parse_sample (trim (strip_fences '' '')) = None \<and>
   generateSongWithAI JSON_parse_sample (completion_of '' '') =
     Inr \<lparr>gen_title = JStr ''Untitled Song'', gen_topic = JStr ''General'', gen_lyrics = JStr [],
          gen_rhythmPattern = JStr [], gen_culturalNotes = JStr []\<rparr> \<and>
   JSON_parse_sample (trim (strip_fences ''{"title":""}'')) = Some (JObj [(''title'', JStr [])]) \<and>
   generateSongWithAI JSON_parse_sample (completion_of ''{"title":""}'') =
     Inr \<lparr>gen_title = JStr ''Untitled Song'', gen_topic = JStr ''General'', gen_lyrics = JStr [],
          gen_rhythmPattern = JStr [], gen_culturalNotes = JStr []\<rparr>\<close>
  by (simp add: generateSongWithAI_def generate_try_def completion_of_def response_text_def trim_def
      is_space_def JSON_parse_sample_def get_prop_def nullish_def js_or_def)

text \<open>
  C5, amended. For every response text that is not white space only and that
  \<^verbatim>\<open>JSON.parse\<close> rejects after the code fences are stripped, the generator succeeds with
  the raw text as lyrics, the title \<^verbatim>\<open>Untitled Song\<close>, the topic \<^verbatim>\<open>General\<close> and
  empty strings for \<open>rhythmPattern\<close> and \<open>culturalNotes\<close>. When the text parses to an
  object, each field that is absent or holds a value JavaScript takes as false (the empty
  string, \<^verbatim>\<open>null\<close>, \<^verbatim>\<open>false\<close>, zero) falls back to its default on its own, and every
  other field is kept.
\<close>

theorem lyrics_fallback:
  "(trim (response_text resp) \<noteq> [] \<and> P (trim (strip_fences (response_text resp))) = None \<longrightarrow>
      generateSongWithAI P (Inr resp) =
        Inr \<lparr>gen_title = JStr ''Untitled Song'', gen_topic = JStr ''General'',
             gen_lyrics = JStr (response_text resp), gen_rhythmPattern = JStr [],
             gen_culturalNotes = JStr []\<rparr>) \<and>
   (trim (response_text resp) \<noteq> [] \<and> P (trim (strip_fences (response_text resp))) = Some (JObj kvs) \<longrightarrow>
      generateSongWithAI P (Inr resp) =
        Inr \<lparr>gen_title = field_or kvs ''title'' ''Untitled Song'',
             gen_topic = field_or kvs ''topic'' ''General'',
             gen_lyrics = field_or kvs ''lyrics'' [],
             gen_rhythmPattern = field_or kvs ''rhythmPattern'' [],
             gen_culturalNotes = field_or kvs ''culturalNotes'' []\<rparr>)"
  using generate_not_json [of resp P] generate_object [of resp P kvs] by blast

theorem lyrics_fallback_witness:
  \<open>generateSongWithAI JSON_parse_sample (completion_of ''La la la'') =
     Inr \<lparr>gen_title = JStr ''Untitled Song'', gen_topic = JStr ''General'',
          gen_lyrics = JStr ''La la la'', gen_rhythmPattern = JStr [], gen_culturalNotes = JStr []\<rparr> \<and>
   generateSongWithAI JSON_parse_sample
       (completion_of ''```json{"title":"Rain","lyrics":"Drip drop"}```'') =
     Inr \<lparr>gen_title = JStr ''Rain'', gen_topic = JStr ''General'',
          gen_lyrics = JStr ''Drip drop'', gen_rhythmPattern = JStr [], gen_culturalNotes = JStr []\<rparr>\<close>
proof -
  let ?la = "\<lparr>choices = [\<lparr>choice_message = Some \<lparr>content = Some ''La la la''\<rparr>\<rparr>]\<rparr>"
  let ?rain = \<open>\<lparr>choices = [\<lparr>choice_message =
                   Some \<lparr>content = Some ''```json{"title":"Rain","lyrics":"Drip drop"}```''\<rparr>\<rparr>]\<rparr>\<close>
  let ?kvs = "[(''title'', JStr ''Rain''), (''lyrics'', JStr ''Drip drop'')]"
  have t1: "response_text ?la = ''La la la''" by (simp add: response_text_def)
  have t2: \<open>response_text ?rain = ''```json{"title":"Rain","lyrics":"Drip drop"}```''\<close>
    by (simp add: response_text_def)
  have a1: "trim (response_text ?la) \<noteq> [] \<and> JSON_parse_sample (trim (strip_fences (response_text ?la))) = None"
    unfolding t1 by (simp add: trim_def is_space_def JSON_parse_sample_def)
  have a2: "trim (response_text ?rain) \<noteq> [] \<and>
            JSON_parse_sample (trim (strip_fences (response_text ?rain))) = Some (JObj ?kvs)"
    unfolding t2 by (simp add: trim_def is_space_def JSON_parse_sample_def)
  from lyrics_fallback [of ?la JSON_parse_sample "[]", THEN conjunct1, THEN mp, OF a1]
  have c1: "generateSongWithAI JSON_parse_sample (completion_of ''La la la'') =
     Inr \<lparr>gen_title = JStr ''Untitled Song'', gen_topic = JStr ''General'',
          gen_lyrics = JStr ''La la la'', gen_rhythmPattern = JStr [], gen_culturalNotes = JStr []\<rparr>"
    by (simp add: completion_of_def t1)
  from lyrics_fallback [of ?rain JSON_parse_sample ?kvs, THEN conjunct2, THEN mp, OF a2]
  have c2: \<open>generateSongWithAI JSON_parse_sample
       (completion_of ''```json{"title":"Rain","lyrics":"Drip drop"}```'') =
     Inr \<lparr>gen_title = JStr ''Rain'', gen_topic = JStr ''General'',
          gen_lyrics = JStr ''Drip drop'', gen_rhythmPattern = JStr [], gen_culturalNotes = JStr []\<rparr>\<close>
    by (simp add: completion_of_def field_or_def)
  from c1 c2 show ?thesis by blast
qed

text \<open>
  C7. The generator is to fail only when the call to the text-generation service fails,
  never because of the content of the response. On the response text \<^verbatim>\<open>null\<close> the
  call has succeeded and \<^verbatim>\<open>JSON.parse\<close> returns \<^verbatim>\<open>null\<close>; the read of
  \<^verbatim>\<open>parsed.title\<close> then raises outside the inner \<^verbatim>\<open>try\<close>, and the generator fails.
\<close>

theorem generation_fails_on_null_json:
  "JSON_parse_sample (trim (strip_fences ''null'')) = Some JNull \<and>
   generateSongWithAI JSON_parse_sample (completion_of ''null'') =
     Inl (JsError ''Cannot read properties of null (reading 'title')'')"
  by (simp add: generateSongWithAI_def generate_try_def completion_of_def response_text_def trim_def
      is_space_def JSON_parse_sample_def get_prop_def nullish_def cannot_read_def message_or_def)

section \<open>The poll endpoint\<close>

text \<open>
  C6. For every song with a stored job id and a null \<open>audioUrl\<close>, if the provider's
  status query raises (whatever it raises, a 404 for a job that is too new included), the
  poll endpoint answers \<^verbatim>\<open>{status: "running"}\<close> and the store is left as it is.
\<close>

theorem poll_provider_error_running:
  assumes "getSong st ident = Some s" and "audioUrl s = JNull" and "sunoJobId s \<noteq> JNull"
    and "details (sunoJobId s) = Inl e"
  shows "answer (song_audio details st ident) = running \<and> new_store (song_audio details st ident) = st"
  using assms by (simp add: song_audio_def opt_field_def Let_def)

theorem poll_provider_error_running_witness:
  "answer (song_audio provider_down store1 ''s1'') = running \<and>
   new_store (song_audio provider_down store1 ''s1'') = store1"
proof -
  have "getSong store1 ''s1'' = Some song1" by (simp add: getSong_def store1_def)
  moreover have "audioUrl song1 = JNull" by (simp add: song1_def)
  moreover have "sunoJobId song1 \<noteq> JNull" by (simp add: song1_def)
  moreover have "provider_down (sunoJobId song1) = Inl (JsError ''Request failed with status code 404'')"
    by (simp add: provider_down_def)
  ultimately show ?thesis by (rule poll_provider_error_running)
qed

text \<open>
  C8. In every store the server can reach, for every stored song whose \<open>audioUrl\<close> is
  not null, the poll endpoint answers \<^verbatim>\<open>{status: "success", audioUrl}\<close> with exactly
  the stored URL, makes no call to the provider and leaves the store unchanged.
\<close>

theorem poll_resolved_short_circuit:
  assumes "reachable st" and "getSong st ident = Some s" and "audioUrl s \<noteq> JNull"
  shows "song_audio details st ident =
           \<lparr>new_store = st, answer = success (audioUrl s), provider_calls = []\<rparr>"
proof -
  from assms(2) have "s \<in> snd ` set st"
    by (auto simp: getSong_def dest!: map_of_SomeD intro: rev_image_eqI)
  with reachable_audio_ok [OF assms(1)] assms(3) have "truthy (audioUrl s)"
    by (auto simp: audio_ok_def)
  with assms(2) show ?thesis by (rule song_audio_resolved)
qed

theorem poll_resolved_short_circuit_witness:
  "song_audio provider_down resolved1 ''s1'' =
     \<lparr>new_store = resolved1, answer = success (JStr ''https://cdn.example/a.mp3''), provider_calls = []\<rparr>"
proof -
  have g: "getSong resolved1 ''s1'' = Some (song1\<lparr>audioUrl := JStr ''https://cdn.example/a.mp3''\<rparr>)"
    by (simp add: getSong_def resolved1_def)
  have n: "audioUrl (song1\<lparr>audioUrl := JStr ''https://cdn.example/a.mp3''\<rparr>) \<noteq> JNull" by simp
  from poll_resolved_short_circuit [OF reachable_resolved1 g n, of provider_down]
  show ?thesis by simp
qed

text \<open>
  C9. Whatever the webhook handler or the poll handler writes, the store holds the same
  ids in the same order afterwards, every song agrees with what it was on \<open>song_id\<close>,
  \<open>title\<close>, \<open>topic\<close>, \<open>lyrics\<close>, \<open>rhythmPattern\<close>, \<open>culturalNotes\<close>,
  \<open>musicalStyle\<close>, \<open>sourceDocumentId\<close>, \<open>sourceText\<close>, \<open>sunoJobId\<close> and
  \<open>createdAt\<close>, and the songs under every id but one (the polled id, for the poll) are
  the same altogether.
\<close>

theorem resolution_writes_only_audioUrl:
  "(\<exists>k. list_all2 (unchanged_but k) st (fst (suno_callback st b))) \<and>
   list_all2 (unchanged_but ident) st (new_store (song_audio details st ident))"
proof
  from suno_callback_cases [of st b]
  show "\<exists>k. list_all2 (unchanged_but k) st (fst (suno_callback st b))"
  proof
    assume "fst (suno_callback st b) = st"
    then show ?thesis by (simp add: unchanged_but_refl)
  next
    assume "\<exists>k v. truthy v \<and> fst (suno_callback st b) = fst (updateSong st k (only_audioUrl v))"
    then obtain k v where "fst (suno_callback st b) = fst (updateSong st k (only_audioUrl v))"
      by blast
    then have "list_all2 (unchanged_but k) st (fst (suno_callback st b))"
      by (simp add: unchanged_but_updateSong)
    then show ?thesis ..
  qed
  from song_audio_cases [of details st ident]
  show "list_all2 (unchanged_but ident) st (new_store (song_audio details st ident))"
    by (auto simp: unchanged_but_refl unchanged_but_updateSong)
qed

theorem resolution_writes_only_audioUrl_witness:
  "(\<exists>k. list_all2 (unchanged_but k) store2
          [(''s1'', song1\<lparr>audioUrl := JStr ''https://cdn.example/a.mp3''\<rparr>), (''s2'', song2)]) \<and>
   list_all2 (unchanged_but ''s2'') store2
          [(''s1'', song1), (''s2'', song2\<lparr>audioUrl := JStr ''https://cdn.example/b.mp3''\<rparr>)]"
proof -
  have g: "getSong store2 ''s2'' = Some song2" by (simp add: getSong_def store2_def)
  have a: "audioUrl song2 = JNull" by (simp add: song1_def song2_def)
  have j: "truthy (sunoJobId song2)" by (simp add: song2_def)
  have p: "new_store (song_audio (provider_says (status_response (JStr ''https://cdn.example/b.mp3'') (JStr ''complete'')))
             store2 ''s2'')
           = [(''s1'', song1), (''s2'', song2\<lparr>audioUrl := JStr ''https://cdn.example/b.mp3''\<rparr>)]"
  proof -
    have "provider_says (status_response (JStr ''https://cdn.example/b.mp3'') (JStr ''complete'')) (sunoJobId song2)
          = Inr (status_response (JStr ''https://cdn.example/b.mp3'') (JStr ''complete''))"
      by (simp add: provider_says_def)
    from song_audio_pending [of store2 "''s2''" song2
        "provider_says (status_response (JStr ''https://cdn.example/b.mp3'') (JStr ''complete''))", OF g a j this]
    show ?thesis
      by (simp add: resolve_poll_shape store2_def)
  qed
  from resolution_writes_only_audioUrl [of store2
      "completion_webhook (JStr ''job-1'') (JStr ''https://cdn.example/a.mp3'')" "''s2''"
      "provider_says (status_response (JStr ''https://cdn.example/b.mp3'') (JStr ''complete''))"]
  show ?thesis by (simp add: store2_callback p)
qed

text \<open>
  C10. For every song id under which the store holds no song, the poll endpoint answers
  \<^verbatim>\<open>{status: "running"}\<close> with status 200: not a not-found reply and not an error.
  It does not query the provider and leaves the store as it is.
\<close>

theorem poll_unknown_song_running:
  "getSong st ident = None \<Longrightarrow>
   song_audio details st ident = \<lparr>new_store = st, answer = running, provider_calls = []\<rparr>"
  by (simp add: song_audio_def opt_field_def)

theorem poll_unknown_song_running_witness:
  "song_audio provider_down store1 ''s2'' = \<lparr>new_store = store1, answer = running, provider_calls = []\<rparr>"
proof -
  have "getSong store1 ''s2'' = None" by (simp add: getSong_def store1_def)
  then show ?thesis by (rule poll_unknown_song_running)
qed

end
